theory Spec2Isabelle
  imports Complex_Main "HOL-Library.AList"
begin

section \<open>Decoded JSON values and the Python operations on them\<close>

text \<open>
  Request envelopes, tool arguments and upstream responses are decoded JSON: Python
  \<open>None\<close>, \<open>bool\<close>, \<open>int\<close>, \<open>float\<close>, \<open>str\<close>, \<open>list\<close> and \<open>dict\<close> with string keys.
  A dict is an association list in insertion order with distinct keys.  A float is kept
  as the text Python prints for it.  Strings are byte strings (UTF-8), so the cross mark
  that opens the error texts is three characters.
\<close>

datatype json =
    JNull
  | JBool bool
  | JInt int
  | JFloat string
  | JStr string
  | JList "json list"
  | JObj "(string \<times> json) list"

text \<open>Truth value of a Python object in \<open>if x\<close>, \<open>not x\<close>, \<open>x and y\<close>.\<close>

fun truthy :: "json \<Rightarrow> bool" where
  "truthy JNull = False"
| "truthy (JBool b) = b"
| "truthy (JInt i) = (i \<noteq> 0)"
| "truthy (JFloat s) = (s \<noteq> ''0.0'' \<and> s \<noteq> ''-0.0'')"
| "truthy (JStr s) = (s \<noteq> [])"
| "truthy (JList xs) = (xs \<noteq> [])"
| "truthy (JObj kvs) = (kvs \<noteq> [])"

fun type_name :: "json \<Rightarrow> string" where
  "type_name JNull = ''NoneType''"
| "type_name (JBool b) = ''bool''"
| "type_name (JInt i) = ''int''"
| "type_name (JFloat s) = ''float''"
| "type_name (JStr s) = ''str''"
| "type_name (JList xs) = ''list''"
| "type_name (JObj kvs) = ''dict''"

text \<open>\<open>sep.join(xs)\<close>\<close>

fun join :: "string \<Rightarrow> string list \<Rightarrow> string" where
  "join sep [] = []"
| "join sep [x] = x"
| "join sep (x # y # ys) = x @ sep @ join sep (y # ys)"

text \<open>\<open>str(n)\<close> for an integer.\<close>

function str_nat :: "nat \<Rightarrow> string" where
  "str_nat n =
     (if n < 10 then [char_of (48 + n)]
      else str_nat (n div 10) @ [char_of (48 + n mod 10)])"
  by pat_completeness auto
termination
  by (relation "measure (\<lambda>n. n)") auto

definition str_int :: "int \<Rightarrow> string" where
  "str_int i = (if i < 0 then ''-'' @ str_nat (nat (- i)) else str_nat (nat i))"

text \<open>
  \<open>repr(s)\<close> of a string: single quotes unless the string holds a single quote and no
  double quote; backslash, the chosen quote and control characters are escaped.
\<close>

definition hex_digit :: "nat \<Rightarrow> char" where
  "hex_digit n = (if n < 10 then char_of (48 + n) else char_of (87 + n))"

definition repr_char :: "char \<Rightarrow> char \<Rightarrow> string" where
  "repr_char q c =
     (if c = CHR 0x5C then [CHR 0x5C, CHR 0x5C]
      else if c = q then [CHR 0x5C, q]
      else if c = CHR 0x0A then [CHR 0x5C, CHR ''n'']
      else if c = CHR 0x0D then [CHR 0x5C, CHR ''r'']
      else if c = CHR 0x09 then [CHR 0x5C, CHR ''t'']
      else if of_char c < (32::nat) \<or> of_char c = (127::nat)
        then [CHR 0x5C, CHR ''x'', hex_digit (of_char c div 16), hex_digit (of_char c mod 16)]
      else [c])"

definition repr_str :: "string \<Rightarrow> string" where
  "repr_str s =
     (let q = (if CHR 0x27 \<in> set s \<and> CHR 0x22 \<notin> set s then CHR 0x22 else CHR 0x27)
      in [q] @ concat (map (repr_char q) s) @ [q])"

fun py_repr :: "json \<Rightarrow> string" where
  "py_repr JNull = ''None''"
| "py_repr (JBool b) = (if b then ''True'' else ''False'')"
| "py_repr (JInt i) = str_int i"
| "py_repr (JFloat s) = s"
| "py_repr (JStr s) = repr_str s"
| "py_repr (JList xs) = ''['' @ join '', '' (map py_repr xs) @ '']''"
| "py_repr (JObj kvs) =
     ''{'' @ join '', '' (map (\<lambda>kv. repr_str (fst kv) @ '': '' @ py_repr (snd kv)) kvs) @ ''}''"

text \<open>\<open>str(x)\<close>, which is also what an f-string inserts for \<open>{x}\<close>.\<close>

definition py_str :: "json \<Rightarrow> string" where
  "py_str x = (case x of JStr s \<Rightarrow> s | _ \<Rightarrow> py_repr x)"

text \<open>\<open>s.strip()\<close>: leading and trailing ASCII whitespace removed.\<close>

definition is_space :: "char \<Rightarrow> bool" where
  "is_space c \<longleftrightarrow> (let n = (of_char c :: nat) in (9 \<le> n \<and> n \<le> 13) \<or> (28 \<le> n \<and> n \<le> 32))"

definition py_strip :: "string \<Rightarrow> string" where
  "py_strip s = rev (dropWhile is_space (rev (dropWhile is_space s)))"

text \<open>\<open>s.replace('Z', '+00:00')\<close>\<close>

definition replace_Z :: "string \<Rightarrow> string" where
  "replace_Z s = concat (map (\<lambda>c. if c = CHR ''Z'' then ''+00:00'' else [c]) s)"

section \<open>Outcomes of calls\<close>

text \<open>
  Python exceptions raised by the modelled code.  \<open>TrelloAPIError\<close> carries the message
  and the HTTP status (\<open>None\<close> when it was raised without one).
\<close>

datatype exn =
    ValueError string
  | AttributeError string
  | TypeError string
  | EOFError
  | ValidationError string "string list"
  | TrelloAPIError string "int option"

text \<open>
  A coroutine either returns, raises, or never resumes (\<open>Blocks\<close>): the latter is what
  awaiting a lock that is never released amounts to.
\<close>

datatype 'a outcome = Returns 'a | Raises exn | Blocks

section \<open>Rate limiter (trello\_client.py)\<close>

text \<open>
  \<open>requests\<close> is the list of admission timestamps, \<open>lock_held\<close> the state of the
  \<open>asyncio.Lock\<close> (not re-entrant).  Time is \<open>time.time()\<close> in seconds, idealised as a
  real number.
\<close>

record RateLimiter =
  max_requests :: int
  time_window :: real
  requests :: "real list"
  lock_held :: bool

definition RateLimiter_init :: "int \<Rightarrow> real \<Rightarrow> RateLimiter" where
  "RateLimiter_init m w =
     \<lparr>max_requests = m, time_window = w, requests = [], lock_held = False\<rparr>"

definition prune :: "real \<Rightarrow> RateLimiter \<Rightarrow> real list" where
  "prune now rl = filter (\<lambda>req_time. now - req_time < time_window rl) (requests rl)"

text \<open>
  \<open>acquire now rl\<close>: one call of \<open>RateLimiter.acquire\<close> whose \<open>time.time()\<close> reads
  \<open>now\<close>.  The whole body runs inside \<open>async with self._lock\<close>, including the recursive
  \<open>return await self.acquire()\<close> after the sleep; the recursive call therefore starts
  (at \<open>now + wait_time\<close>) with the lock still held.  \<open>min\<close> of an empty list raises
  ValueError; leaving the \<open>async with\<close> block, by return or by exception, releases
  the lock.
\<close>

function acquire :: "real \<Rightarrow> RateLimiter \<Rightarrow> unit outcome \<times> RateLimiter" where
  "acquire now rl =
     (if lock_held rl then (Blocks, rl)
      else
        let rl1 = rl\<lparr>lock_held := True, requests := prune now rl\<rparr> in
        if int (length (requests rl1)) \<ge> max_requests rl1 then
          (if requests rl1 = []
           then (Raises (ValueError ''min() arg is an empty sequence''),
                 rl1\<lparr>lock_held := False\<rparr>)
           else
             let oldest_request = min_list (requests rl1);
                 wait_time = time_window rl1 - (now - oldest_request) in
             if wait_time > 0 then
               (case acquire (now + wait_time) rl1 of
                  (Blocks, rl2) \<Rightarrow> (Blocks, rl2)
                | (r, rl2) \<Rightarrow> (r, rl2\<lparr>lock_held := False\<rparr>))
             else (Returns (), rl1\<lparr>requests := requests rl1 @ [now], lock_held := False\<rparr>))
        else (Returns (), rl1\<lparr>requests := requests rl1 @ [now], lock_held := False\<rparr>))"
  by pat_completeness auto
termination
  by (relation "measure (\<lambda>(now, rl). if lock_held rl then 0 else 1)") auto

text \<open>
  A run of calls, one after the other, whose clock readings are \<open>nows\<close>: the list of
  the readings at which a call was admitted.  A call that blocks leaves the lock held, so
  every later call blocks as well.
\<close>

fun admissions :: "real list \<Rightarrow> RateLimiter \<Rightarrow> real list" where
  "admissions [] rl = []"
| "admissions (now # nows) rl =
     (case acquire now rl of
        (Returns u, rl') \<Rightarrow> now # admissions nows rl'
      | (r, rl') \<Rightarrow> admissions nows rl')"

text \<open>The window of \<open>w\<close> seconds that ends at \<open>t\<close>.\<close>

definition in_window :: "real \<Rightarrow> real \<Rightarrow> real \<Rightarrow> bool" where
  "in_window w t r \<longleftrightarrow> t - w < r \<and> r \<le> t"

text \<open>No window of \<open>w\<close> seconds holds more than \<open>m\<close> entries of the history.\<close>

definition bounded_log :: "int \<Rightarrow> real \<Rightarrow> real list \<Rightarrow> bool" where
  "bounded_log m w hist \<longleftrightarrow> (\<forall>t. int (length (filter (in_window w t) hist)) \<le> m)"

section \<open>The world outside the process\<close>

text \<open>
  An upstream call is a method, an endpoint and the query parameters.  The service
  answers with a status, the body text and the decoded body (\<open>None\<close> when the body is
  not JSON); or the HTTP library raises \<open>aiohttp.ClientError\<close>, or some other
  exception.
\<close>

record request =
  rq_method :: string
  rq_endpoint :: string
  rq_params :: "(string \<times> json) list"

datatype reply =
    Http int string "json option"
  | ClientError string
  | Crash exn

text \<open>
  \<open>clock\<close> is the system time in seconds (read by \<open>time.time()\<close> and
  \<open>datetime.now()\<close>); \<open>stdin\<close> holds the lines the user will type, each with the time
  the user takes to type it; when they are used up, \<open>input()\<close> raises EOFError if
  \<open>stdin_closed\<close> and waits forever otherwise.  \<open>upstream\<close> is the remote service and
  \<open>sent\<close> the calls issued to it so far.
\<close>

record world =
  clock :: real
  stdin :: "(real \<times> string) list"
  stdin_closed :: bool
  upstream :: "request \<Rightarrow> reply"
  sent :: "request list"

section \<open>Credential manager (credential\_manager.py)\<close>

record cached_entry =
  ce_api_key :: json
  ce_token :: json
  ce_username :: json
  ce_password :: json

text \<open>\<open>cache_duration\<close> is a \<open>timedelta\<close>, here in seconds.\<close>

record CredentialManager =
  cache_duration :: real
  cached_credentials :: "cached_entry option"
  credentials_timestamp :: "real option"

text \<open>
  \<open>is_cached_valid\<close>: the cached dict has four keys and a \<open>datetime\<close> is never
  false, so \<open>not self.cached_credentials\<close> and \<open>not self.credentials_timestamp\<close> test for
  \<open>None\<close>.  An expired entry is dropped.
\<close>

definition is_cached_valid :: "real \<Rightarrow> CredentialManager \<Rightarrow> bool \<times> CredentialManager" where
  "is_cached_valid now cm =
     (case (cached_credentials cm, credentials_timestamp cm) of
        (Some c, Some ts) \<Rightarrow>
          if now - ts > cache_duration cm
          then (False, cm\<lparr>cached_credentials := None, credentials_timestamp := None\<rparr>)
          else (True, cm)
      | _ \<Rightarrow> (False, cm))"

definition cache_credentials ::
  "real \<Rightarrow> json \<Rightarrow> json \<Rightarrow> json \<Rightarrow> json \<Rightarrow> CredentialManager \<Rightarrow> CredentialManager" where
  "cache_credentials now api_key token username password cm =
     cm\<lparr>cached_credentials :=
          Some \<lparr>ce_api_key = api_key, ce_token = token,
                ce_username = username, ce_password = password\<rparr>,
        credentials_timestamp := Some now\<rparr>"

definition get_cached_credentials ::
  "real \<Rightarrow> CredentialManager \<Rightarrow> (json \<times> json) option \<times> CredentialManager" where
  "get_cached_credentials now cm =
     (case is_cached_valid now cm of
        (True, cm') \<Rightarrow>
          (case cached_credentials cm' of
             Some c \<Rightarrow> (Some (ce_api_key c, ce_token c), cm')
           | None \<Rightarrow> (None, cm'))
      | (False, cm') \<Rightarrow> (None, cm'))"

text \<open>
  One \<open>while True\<close> loop of \<open>prompt_for_credentials\<close>: read lines until one, stripped,
  has at least 32 characters.  The result is the accepted value and the world after the
  lines read.
\<close>

fun read_value :: "(real \<times> string) list \<Rightarrow> world \<Rightarrow> string outcome \<times> world" where
  "read_value [] w =
     ((if stdin_closed w then Raises EOFError else Blocks), w\<lparr>stdin := []\<rparr>)"
| "read_value ((d, line) # rest) w =
     (let v = py_strip line; w' = w\<lparr>clock := clock w + d\<rparr> in
      if v \<noteq> [] \<and> length v \<ge> 32 then (Returns v, w'\<lparr>stdin := rest\<rparr>)
      else read_value rest w')"

text \<open>
  \<open>prompt_for_credentials\<close>: the printing and the opening of the browser have no effect
  on the state (a failure to open the browser is caught).
\<close>

definition prompt_for_credentials ::
  "CredentialManager \<Rightarrow> world \<Rightarrow> (json \<times> json) outcome \<times> CredentialManager \<times> world" where
  "prompt_for_credentials cm w =
     (case read_value (stdin w) w of
        (Returns api_key, w1) \<Rightarrow>
          (case read_value (stdin w1) w1 of
             (Returns token, w2) \<Rightarrow>
               (Returns (JStr api_key, JStr token),
                cache_credentials (clock w2) (JStr api_key) (JStr token) JNull JNull cm, w2)
           | (Raises e, w2) \<Rightarrow> (Raises e, cm, w2)
           | (Blocks, w2) \<Rightarrow> (Blocks, cm, w2))
      | (Raises e, w1) \<Rightarrow> (Raises e, cm, w1)
      | (Blocks, w1) \<Rightarrow> (Blocks, cm, w1))"

definition get_or_prompt_credentials ::
  "json \<Rightarrow> json \<Rightarrow> CredentialManager \<Rightarrow> world
     \<Rightarrow> (json \<times> json) outcome \<times> CredentialManager \<times> world" where
  "get_or_prompt_credentials api_key token cm w =
     (if truthy api_key \<and> truthy token
      then (Returns (api_key, token), cache_credentials (clock w) api_key token JNull JNull cm, w)
      else
        (case get_cached_credentials (clock w) cm of
           (Some cached, cm') \<Rightarrow> (Returns cached, cm', w)
         | (None, cm') \<Rightarrow> prompt_for_credentials cm' w))"

definition clear_credentials :: "CredentialManager \<Rightarrow> CredentialManager" where
  "clear_credentials cm = cm\<lparr>cached_credentials := None, credentials_timestamp := None\<rparr>"

section \<open>Request models (schemas.py)\<close>

text \<open>
  What lies outside the repository or is not needed by any property is a parameter:
  pydantic's conversion of a value that is not \<open>None\<close> to a field's type (\<open>None\<close>: the
  value is rejected), \<open>datetime.fromisoformat\<close> (a \<open>datetime\<close> is kept as the text its
  \<open>isoformat()\<close> prints; \<open>None\<close>: ValueError), and \<open>summary tool arguments response\<close>,
  the text a handler builds from a successful upstream response, which is a function of
  that response and, in the handlers whose text quotes them, of the arguments; it may
  raise.
\<close>

record lib =
  as_str :: "json \<Rightarrow> string option"
  as_bool :: "json \<Rightarrow> bool option"
  as_int :: "json \<Rightarrow> int option"
  as_dict :: "json \<Rightarrow> (string \<times> json) list option"
  as_str_list :: "json \<Rightarrow> string list option"
  fromisoformat :: "string \<Rightarrow> string option"
  summary :: "string \<Rightarrow> (string \<times> json) list \<Rightarrow> json \<Rightarrow> exn + string"

text \<open>A field declared with \<open>Field(...)\<close> rejects \<open>None\<close>; an \<open>Optional\<close> field keeps it.\<close>

definition required :: "(json \<Rightarrow> 'a option) \<Rightarrow> json \<Rightarrow> 'a option" where
  "required conv v = (if v = JNull then None else conv v)"

definition optional :: "(json \<Rightarrow> 'a option) \<Rightarrow> json \<Rightarrow> 'a option option" where
  "optional conv v = (if v = JNull then Some None else map_option Some (conv v))"

text \<open>The names of the fields that failed, in declaration order.\<close>

definition failed :: "(string \<times> bool) list \<Rightarrow> string list" where
  "failed checks = map fst (filter (\<lambda>c. \<not> snd c) checks)"

text \<open>The validators: a value that is empty after stripping is refused, names are bounded.\<close>

definition validate_not_empty :: "string \<Rightarrow> string option" where
  "validate_not_empty v = (if v = [] \<or> py_strip v = [] then None else Some (py_strip v))"

definition validate_name :: "string \<Rightarrow> string option" where
  "validate_name v =
     (if v = [] \<or> py_strip v = [] then None
      else if length (py_strip v) > 16384 then None
      else Some (py_strip v))"

text \<open>
  The validator of an update request's name runs before the conversion
  (\<open>pre=True, always=True\<close>): \<open>v.strip()\<close> on a value that is neither \<open>None\<close> nor a string
  raises AttributeError, which pydantic does not turn into a validation error.
\<close>

definition validate_name_pre :: "lib \<Rightarrow> json \<Rightarrow> exn + string option option" where
  "validate_name_pre L v =
     (case v of
        JNull \<Rightarrow> Inr (Some None)
      | JStr s \<Rightarrow>
          Inr (if py_strip s = [] then None
               else if length (py_strip s) > 16384 then None
               else optional (as_str L) (JStr (py_strip s)))
      | _ \<Rightarrow> Inl (AttributeError ([CHR 0x27] @ type_name v @ [CHR 0x27] @
                                  '' object has no attribute '' @ [CHR 0x27] @ ''strip'' @ [CHR 0x27])))"

record TrelloCredentials =
  api_key :: string
  token :: string

definition make_TrelloCredentials :: "lib \<Rightarrow> json \<Rightarrow> json \<Rightarrow> exn + TrelloCredentials" where
  "make_TrelloCredentials L k t =
     (let fk = Option.bind (required (as_str L) k) validate_not_empty;
          ft = Option.bind (required (as_str L) t) validate_not_empty
      in case (fk, ft) of
           (Some k', Some t') \<Rightarrow> Inr \<lparr>api_key = k', token = t'\<rparr>
         | _ \<Rightarrow> Inl (ValidationError ''TrelloCredentials''
                        (failed [(''api_key'', fk \<noteq> None), (''token'', ft \<noteq> None)])))"

record CreateBoardRequest =
  cb_name :: string
  cb_desc :: "string option"
  cb_organization_id :: "string option"
  cb_default_lists :: bool
  cb_prefs :: "(string \<times> json) list option"

definition make_CreateBoardRequest ::
  "lib \<Rightarrow> json \<Rightarrow> json \<Rightarrow> json \<Rightarrow> json \<Rightarrow> json \<Rightarrow> exn + CreateBoardRequest" where
  "make_CreateBoardRequest L name desc organization_id default_lists prefs =
     (let f1 = Option.bind (required (as_str L) name) validate_name;
          f2 = optional (as_str L) desc;
          f3 = optional (as_str L) organization_id;
          f4 = required (as_bool L) default_lists;
          f5 = optional (as_dict L) prefs
      in case (f1, f2, f3, f4, f5) of
           (Some a, Some b, Some c, Some d, Some e) \<Rightarrow>
             Inr \<lparr>cb_name = a, cb_desc = b, cb_organization_id = c,
                  cb_default_lists = d, cb_prefs = e\<rparr>
         | _ \<Rightarrow> Inl (ValidationError ''CreateBoardRequest''
                        (failed [(''name'', f1 \<noteq> None), (''desc'', f2 \<noteq> None),
                                 (''organization_id'', f3 \<noteq> None),
                                 (''default_lists'', f4 \<noteq> None), (''prefs'', f5 \<noteq> None)])))"

record UpdateBoardRequest =
  ub_name :: "string option"
  ub_desc :: "string option"
  ub_closed :: "bool option"
  ub_prefs :: "(string \<times> json) list option"

definition make_UpdateBoardRequest ::
  "lib \<Rightarrow> json \<Rightarrow> json \<Rightarrow> json \<Rightarrow> json \<Rightarrow> exn + UpdateBoardRequest" where
  "make_UpdateBoardRequest L name desc closed_v prefs =
     (case validate_name_pre L name of
        Inl e \<Rightarrow> Inl e
      | Inr f1 \<Rightarrow>
          let f2 = optional (as_str L) desc;
              f3 = optional (as_bool L) closed_v;
              f4 = optional (as_dict L) prefs
          in case (f1, f2, f3, f4) of
               (Some a, Some b, Some c, Some d) \<Rightarrow>
                 Inr \<lparr>ub_name = a, ub_desc = b, ub_closed = c, ub_prefs = d\<rparr>
             | _ \<Rightarrow> Inl (ValidationError ''UpdateBoardRequest''
                            (failed [(''name'', f1 \<noteq> None), (''desc'', f2 \<noteq> None),
                                     (''closed'', f3 \<noteq> None), (''prefs'', f4 \<noteq> None)])))"

record CreateListRequest =
  cl_name :: string
  cl_board_id :: string
  cl_pos :: "string option"

definition make_CreateListRequest ::
  "lib \<Rightarrow> json \<Rightarrow> json \<Rightarrow> json \<Rightarrow> exn + CreateListRequest" where
  "make_CreateListRequest L name board_id pos =
     (let f1 = Option.bind (required (as_str L) name) validate_name;
          f2 = Option.bind (required (as_str L) board_id) validate_not_empty;
          f3 = optional (as_str L) pos
      in case (f1, f2, f3) of
           (Some a, Some b, Some c) \<Rightarrow> Inr \<lparr>cl_name = a, cl_board_id = b, cl_pos = c\<rparr>
         | _ \<Rightarrow> Inl (ValidationError ''CreateListRequest''
                        (failed [(''name'', f1 \<noteq> None), (''board_id'', f2 \<noteq> None),
                                 (''pos'', f3 \<noteq> None)])))"

record CreateCardRequest =
  cc_name :: string
  cc_list_id :: string
  cc_desc :: "string option"
  cc_pos :: "string option"
  cc_due :: "string option"
  cc_labels :: "string list option"
  cc_members :: "string list option"

text \<open>\<open>due\<close> is handed over as a \<open>datetime\<close> or \<open>None\<close>, which the field accepts as it is.\<close>

definition make_CreateCardRequest ::
  "lib \<Rightarrow> json \<Rightarrow> json \<Rightarrow> json \<Rightarrow> json \<Rightarrow> string option \<Rightarrow> json \<Rightarrow> json
     \<Rightarrow> exn + CreateCardRequest" where
  "make_CreateCardRequest L name list_id desc pos due labels members =
     (let f1 = Option.bind (required (as_str L) name) validate_name;
          f2 = Option.bind (required (as_str L) list_id) validate_not_empty;
          f3 = optional (as_str L) desc;
          f4 = optional (as_str L) pos;
          f6 = optional (as_str_list L) labels;
          f7 = optional (as_str_list L) members
      in case (f1, f2, f3, f4, f6, f7) of
           (Some a, Some b, Some c, Some d, Some f, Some g) \<Rightarrow>
             Inr \<lparr>cc_name = a, cc_list_id = b, cc_desc = c, cc_pos = d, cc_due = due,
                  cc_labels = f, cc_members = g\<rparr>
         | _ \<Rightarrow> Inl (ValidationError ''CreateCardRequest''
                        (failed [(''name'', f1 \<noteq> None), (''list_id'', f2 \<noteq> None),
                                 (''desc'', f3 \<noteq> None), (''pos'', f4 \<noteq> None),
                                 (''labels'', f6 \<noteq> None), (''members'', f7 \<noteq> None)])))"

record UpdateCardRequest =
  uc_name :: "string option"
  uc_desc :: "string option"
  uc_closed :: "bool option"
  uc_list_id :: "string option"
  uc_pos :: "string option"
  uc_due :: "string option"

definition make_UpdateCardRequest ::
  "lib \<Rightarrow> json \<Rightarrow> json \<Rightarrow> json \<Rightarrow> json \<Rightarrow> json \<Rightarrow> string option
     \<Rightarrow> exn + UpdateCardRequest" where
  "make_UpdateCardRequest L name desc closed_v list_id pos due =
     (case validate_name_pre L name of
        Inl e \<Rightarrow> Inl e
      | Inr f1 \<Rightarrow>
          let f2 = optional (as_str L) desc;
              f3 = optional (as_bool L) closed_v;
              f4 = optional (as_str L) list_id;
              f5 = optional (as_str L) pos
          in case (f1, f2, f3, f4, f5) of
               (Some a, Some b, Some c, Some d, Some e) \<Rightarrow>
                 Inr \<lparr>uc_name = a, uc_desc = b, uc_closed = c, uc_list_id = d,
                      uc_pos = e, uc_due = due\<rparr>
             | _ \<Rightarrow> Inl (ValidationError ''UpdateCardRequest''
                            (failed [(''name'', f1 \<noteq> None), (''desc'', f2 \<noteq> None),
                                     (''closed'', f3 \<noteq> None), (''list_id'', f4 \<noteq> None),
                                     (''pos'', f5 \<noteq> None)])))"

record SearchRequest =
  sr_query :: string
  sr_board_ids :: "string list option"
  sr_limit :: "int option"

definition validate_limit :: "int option \<Rightarrow> int option option" where
  "validate_limit v =
     (case v of
        Some n \<Rightarrow> if n < 1 \<or> n > 1000 then None else Some (Some n)
      | None \<Rightarrow> Some None)"

definition make_SearchRequest :: "lib \<Rightarrow> json \<Rightarrow> json \<Rightarrow> json \<Rightarrow> exn + SearchRequest" where
  "make_SearchRequest L query board_ids limit =
     (let f1 = Option.bind (required (as_str L) query) validate_not_empty;
          f2 = optional (as_str_list L) board_ids;
          f3 = Option.bind (optional (as_int L) limit) validate_limit
      in case (f1, f2, f3) of
           (Some a, Some b, Some c) \<Rightarrow> Inr \<lparr>sr_query = a, sr_board_ids = b, sr_limit = c\<rparr>
         | _ \<Rightarrow> Inl (ValidationError ''SearchRequest''
                        (failed [(''query'', f1 \<noteq> None), (''board_ids'', f2 \<noteq> None),
                                 (''limit'', f3 \<noteq> None)])))"

section \<open>Upstream adapter (trello\_client.py)\<close>

record TrelloClient =
  rate_limiter :: RateLimiter

definition TrelloClient_init :: TrelloClient where
  "TrelloClient_init = \<lparr>rate_limiter = RateLimiter_init 300 10\<rparr>"

type_synonym 'a client_result = "'a outcome \<times> TrelloClient \<times> world"

text \<open>
  \<open>_make_request\<close>: wait for the rate limiter, add the credentials to the parameters,
  issue the call and map the HTTP status.  The HTTP session has no influence on the
  result and is left out.
\<close>

definition make_request ::
  "string \<Rightarrow> string \<Rightarrow> TrelloCredentials \<Rightarrow> (string \<times> json) list
     \<Rightarrow> TrelloClient \<Rightarrow> world \<Rightarrow> json client_result" where
  "make_request method endpoint credentials params cl w =
     (case acquire (clock w) (rate_limiter cl) of
        (Blocks, rl) \<Rightarrow> (Blocks, cl\<lparr>rate_limiter := rl\<rparr>, w)
      | (Raises e, rl) \<Rightarrow> (Raises e, cl\<lparr>rate_limiter := rl\<rparr>, w)
      | (Returns u, rl) \<Rightarrow>
          let params' = AList.update ''token'' (JStr (token credentials))
                          (AList.update ''key'' (JStr (api_key credentials)) params);
              req = \<lparr>rq_method = method, rq_endpoint = endpoint, rq_params = params'\<rparr>;
              cl' = cl\<lparr>rate_limiter := rl\<rparr>;
              w' = w\<lparr>sent := sent w @ [req]\<rparr>
          in case upstream w req of
               Http status text body \<Rightarrow>
                 if status = 200 then
                   (Returns (case body of Some j \<Rightarrow> j
                             | None \<Rightarrow> JObj [(''result'', JStr text)]), cl', w')
                 else if status = 401 then
                   (Raises (TrelloAPIError ''Unauthorized - check your API key and token''
                              (Some status)), cl', w')
                 else if status = 403 then
                   (Raises (TrelloAPIError ''Forbidden - insufficient permissions''
                              (Some status)), cl', w')
                 else if status = 404 then
                   (Raises (TrelloAPIError ''Not found - the requested resource does not exist''
                              (Some status)), cl', w')
                 else if status = 429 then
                   (Raises (TrelloAPIError ''Rate limit exceeded'' (Some status)), cl', w')
                 else
                   (Raises (TrelloAPIError (''API request failed with status '' @ str_int status)
                              (Some status)), cl', w')
             | ClientError m \<Rightarrow> (Raises (TrelloAPIError (''Network error: '' @ m) None), cl', w')
             | Crash e \<Rightarrow> (Raises e, cl', w'))"

text \<open>
  \<open>validate_credentials\<close> turns a \<open>TrelloAPIError\<close> into a result that is not valid.
  Its two results, \<open>{"valid": True, "user_info": response}\<close> and
  \<open>{"valid": False, "error": str(e)}\<close>, are the two constructors of \<open>validation\<close>.
\<close>

datatype validation = Valid json | NotValid string

definition validate_credentials ::
  "TrelloCredentials \<Rightarrow> TrelloClient \<Rightarrow> world \<Rightarrow> validation client_result" where
  "validate_credentials credentials cl w =
     (case make_request ''GET'' ''members/me'' credentials
             [(''fields'', JStr ''id,username,fullName,email'')] cl w of
        (Returns response, cl', w') \<Rightarrow> (Returns (Valid response), cl', w')
      | (Raises (TrelloAPIError m st), cl', w') \<Rightarrow> (Returns (NotValid m), cl', w')
      | (Raises e, cl', w') \<Rightarrow> (Raises e, cl', w')
      | (Blocks, cl', w') \<Rightarrow> (Blocks, cl', w'))"

text \<open>\<open>response if isinstance(response, list) else []\<close>\<close>

definition list_or_empty :: "json \<Rightarrow> json" where
  "list_or_empty response = (case response of JList xs \<Rightarrow> JList xs | _ \<Rightarrow> JList [])"

definition map_result :: "(json \<Rightarrow> json) \<Rightarrow> json client_result \<Rightarrow> json client_result" where
  "map_result f r = (case r of (Returns x, cl, w) \<Rightarrow> (Returns (f x), cl, w) | other \<Rightarrow> other)"

definition list_boards :: "TrelloCredentials \<Rightarrow> TrelloClient \<Rightarrow> world \<Rightarrow> json client_result" where
  "list_boards credentials cl w =
     map_result list_or_empty
       (make_request ''GET'' ''members/me/boards'' credentials
          [(''fields'', JStr ''id,name,desc,closed,url,prefs''), (''filter'', JStr ''open'')] cl w)"

definition get_board :: "TrelloCredentials \<Rightarrow> json \<Rightarrow> TrelloClient \<Rightarrow> world \<Rightarrow> json client_result" where
  "get_board credentials board_id cl w =
     make_request ''GET'' (''boards/'' @ py_str board_id) credentials
       [(''fields'', JStr ''id,name,desc,closed,url,prefs,labelNames''),
        (''lists'', JStr ''open''), (''cards'', JStr ''open''), (''members'', JStr ''all'')] cl w"

text \<open>\<open>for key, value in prefs.items(): params[f"prefs_{key}"] = value\<close>\<close>

definition add_prefs :: "(string \<times> json) list \<Rightarrow> (string \<times> json) list \<Rightarrow> (string \<times> json) list" where
  "add_prefs prefs params = foldl (\<lambda>p kv. AList.update (''prefs_'' @ fst kv) (snd kv) p) params prefs"

definition create_board :: "TrelloCredentials \<Rightarrow> CreateBoardRequest \<Rightarrow> TrelloClient \<Rightarrow> world \<Rightarrow> json client_result" where
  "create_board credentials request cl w =
     (let p0 = [(''name'', JStr (cb_name request)), (''defaultLists'', JBool (cb_default_lists request))];
          p1 = (case cb_desc request of
                  Some d \<Rightarrow> if d \<noteq> [] then AList.update ''desc'' (JStr d) p0 else p0
                | None \<Rightarrow> p0);
          p2 = (case cb_organization_id request of
                  Some org \<Rightarrow> if org \<noteq> [] then AList.update ''idOrganization'' (JStr org) p1 else p1
                | None \<Rightarrow> p1);
          p3 = (case cb_prefs request of
                  Some prefs \<Rightarrow> if prefs \<noteq> [] then add_prefs prefs p2 else p2
                | None \<Rightarrow> p2)
      in make_request ''POST'' ''boards'' credentials p3 cl w)"

definition update_board ::
  "TrelloCredentials \<Rightarrow> json \<Rightarrow> UpdateBoardRequest \<Rightarrow> TrelloClient \<Rightarrow> world \<Rightarrow> json client_result" where
  "update_board credentials board_id request cl w =
     (let p0 = [];
          p1 = (case ub_name request of Some n \<Rightarrow> AList.update ''name'' (JStr n) p0 | None \<Rightarrow> p0);
          p2 = (case ub_desc request of Some d \<Rightarrow> AList.update ''desc'' (JStr d) p1 | None \<Rightarrow> p1);
          p3 = (case ub_closed request of Some c \<Rightarrow> AList.update ''closed'' (JBool c) p2 | None \<Rightarrow> p2);
          p4 = (case ub_prefs request of
                  Some prefs \<Rightarrow> if prefs \<noteq> [] then add_prefs prefs p3 else p3
                | None \<Rightarrow> p3)
      in make_request ''PUT'' (''boards/'' @ py_str board_id) credentials p4 cl w)"

definition get_lists :: "TrelloCredentials \<Rightarrow> json \<Rightarrow> TrelloClient \<Rightarrow> world \<Rightarrow> json client_result" where
  "get_lists credentials board_id cl w =
     map_result list_or_empty
       (make_request ''GET'' (''boards/'' @ py_str board_id @ ''/lists'') credentials
          [(''fields'', JStr ''id,name,closed,pos''), (''filter'', JStr ''open'')] cl w)"

definition create_list :: "TrelloCredentials \<Rightarrow> CreateListRequest \<Rightarrow> TrelloClient \<Rightarrow> world \<Rightarrow> json client_result" where
  "create_list credentials request cl w =
     (let p0 = [(''name'', JStr (cl_name request)), (''idBoard'', JStr (cl_board_id request))];
          p1 = (case cl_pos request of Some p \<Rightarrow> AList.update ''pos'' (JStr p) p0 | None \<Rightarrow> p0)
      in make_request ''POST'' ''lists'' credentials p1 cl w)"

definition get_cards :: "TrelloCredentials \<Rightarrow> json \<Rightarrow> json \<Rightarrow> TrelloClient \<Rightarrow> world \<Rightarrow> json client_result" where
  "get_cards credentials board_id list_id cl w =
     (if truthy list_id then
        map_result list_or_empty
          (make_request ''GET'' (''lists/'' @ py_str list_id @ ''/cards'') credentials
             [(''fields'', JStr ''id,name,desc,closed,due,url,labels,members''),
              (''filter'', JStr ''open'')] cl w)
      else if truthy board_id then
        map_result list_or_empty
          (make_request ''GET'' (''boards/'' @ py_str board_id @ ''/cards'') credentials
             [(''fields'', JStr ''id,name,desc,closed,due,url,labels,members''),
              (''filter'', JStr ''open'')] cl w)
      else (Raises (TrelloAPIError ''Either board_id or list_id must be provided'' None), cl, w))"

definition create_card :: "TrelloCredentials \<Rightarrow> CreateCardRequest \<Rightarrow> TrelloClient \<Rightarrow> world \<Rightarrow> json client_result" where
  "create_card credentials request cl w =
     (let p0 = [(''name'', JStr (cc_name request)), (''idList'', JStr (cc_list_id request))];
          p1 = (case cc_desc request of
                  Some d \<Rightarrow> if d \<noteq> [] then AList.update ''desc'' (JStr d) p0 else p0
                | None \<Rightarrow> p0);
          p2 = (case cc_pos request of Some p \<Rightarrow> AList.update ''pos'' (JStr p) p1 | None \<Rightarrow> p1);
          p3 = (case cc_due request of Some d \<Rightarrow> AList.update ''due'' (JStr d) p2 | None \<Rightarrow> p2);
          p4 = (case cc_labels request of
                  Some ls \<Rightarrow> if ls \<noteq> [] then AList.update ''idLabels'' (JStr (join '','' ls)) p3 else p3
                | None \<Rightarrow> p3);
          p5 = (case cc_members request of
                  Some ms \<Rightarrow> if ms \<noteq> [] then AList.update ''idMembers'' (JStr (join '','' ms)) p4 else p4
                | None \<Rightarrow> p4)
      in make_request ''POST'' ''cards'' credentials p5 cl w)"

text \<open>
  \<open>update_card\<close>: a parameter is sent for each field of the request that is not
  \<open>None\<close>; a \<open>datetime\<close> is never false, so a \<open>due\<close> that is not \<open>None\<close> is sent as its
  \<open>isoformat()\<close>.
\<close>

definition update_card_params :: "UpdateCardRequest \<Rightarrow> (string \<times> json) list" where
  "update_card_params request =
     (let p0 = [];
          p1 = (case uc_name request of Some n \<Rightarrow> AList.update ''name'' (JStr n) p0 | None \<Rightarrow> p0);
          p2 = (case uc_desc request of Some d \<Rightarrow> AList.update ''desc'' (JStr d) p1 | None \<Rightarrow> p1);
          p3 = (case uc_closed request of Some c \<Rightarrow> AList.update ''closed'' (JBool c) p2 | None \<Rightarrow> p2);
          p4 = (case uc_list_id request of Some l \<Rightarrow> AList.update ''idList'' (JStr l) p3 | None \<Rightarrow> p3);
          p5 = (case uc_pos request of Some p \<Rightarrow> AList.update ''pos'' (JStr p) p4 | None \<Rightarrow> p4);
          p6 = (case uc_due request of Some d \<Rightarrow> AList.update ''due'' (JStr d) p5 | None \<Rightarrow> p5)
      in p6)"

definition update_card ::
  "TrelloCredentials \<Rightarrow> json \<Rightarrow> UpdateCardRequest \<Rightarrow> TrelloClient \<Rightarrow> world \<Rightarrow> json client_result" where
  "update_card credentials card_id request cl w =
     make_request ''PUT'' (''cards/'' @ py_str card_id) credentials (update_card_params request) cl w"

definition add_member_to_card ::
  "TrelloCredentials \<Rightarrow> json \<Rightarrow> json \<Rightarrow> TrelloClient \<Rightarrow> world \<Rightarrow> json client_result" where
  "add_member_to_card credentials card_id member_id cl w =
     make_request ''POST'' (''cards/'' @ py_str card_id @ ''/idMembers'') credentials
       [(''value'', member_id)] cl w"

text \<open>\<open>response.get("cards", []) if isinstance(response, dict) else []\<close>\<close>

definition cards_of :: "json \<Rightarrow> json" where
  "cards_of response =
     (case response of
        JObj kvs \<Rightarrow> (case map_of kvs ''cards'' of Some v \<Rightarrow> v | None \<Rightarrow> JList [])
      | _ \<Rightarrow> JList [])"

definition search_cards :: "TrelloCredentials \<Rightarrow> SearchRequest \<Rightarrow> TrelloClient \<Rightarrow> world \<Rightarrow> json client_result" where
  "search_cards credentials request cl w =
     (let p0 = [(''query'', JStr (sr_query request)), (''modelTypes'', JStr ''cards''),
                (''cards_limit'', JInt (case sr_limit request of
                                          Some n \<Rightarrow> if n \<noteq> 0 then n else 50
                                        | None \<Rightarrow> 50))];
          p1 = (case sr_board_ids request of
                  Some bs \<Rightarrow> if bs \<noteq> [] then AList.update ''idBoards'' (JStr (join '','' bs)) p0 else p0
                | None \<Rightarrow> p0)
      in map_result cards_of (make_request ''GET'' ''search'' credentials p1 cl w))"

section \<open>Tool registry and dispatcher (tools.py)\<close>

record TrelloTools =
  client :: "TrelloClient option"
  credential_manager :: CredentialManager

type_synonym 'a tools_result = "'a outcome \<times> TrelloTools \<times> world"

definition get_client :: "TrelloTools \<Rightarrow> TrelloClient" where
  "get_client tt = (case client tt of None \<Rightarrow> TrelloClient_init | Some cl \<Rightarrow> cl)"

text \<open>A call \<open>self.get_client().f(...)\<close>: the client is created on first use and kept.\<close>

definition with_client ::
  "(TrelloClient \<Rightarrow> world \<Rightarrow> 'a client_result) \<Rightarrow> TrelloTools \<Rightarrow> world \<Rightarrow> 'a tools_result" where
  "with_client f tt w =
     (case f (get_client tt) w of (r, cl', w') \<Rightarrow> (r, tt\<lparr>client := Some cl'\<rparr>, w'))"

text \<open>The catalog: name, description and input schema of each tool, in the order of the source.\<close>

definition get_tools :: "(string \<times> string \<times> json) list" where
  "get_tools =
    [(''list_boards'',
      ''List all boards for the authenticated user (credentials optional - will prompt if needed)'',
      JObj
       [(''type'', JStr ''object''),
        (''properties'', JObj
         [(''api_key'', JObj
           [(''type'', JStr ''string''),
            (''description'', JStr ''Trello API key (optional, will prompt if not provided)'')]),
          (''token'', JObj
           [(''type'', JStr ''string''),
            (''description'', JStr ''Trello API token (optional, will prompt if not provided)'')])]),
        (''required'', JList [])]),
     (''get_board'',
      ''Get detailed information about a specific board'',
      JObj
       [(''type'', JStr ''object''),
        (''properties'', JObj
         [(''api_key'', JObj
           [(''type'', JStr ''string''),
            (''description'', JStr ''Trello API key (optional, will prompt if not provided)'')]),
          (''token'', JObj
           [(''type'', JStr ''string''),
            (''description'', JStr ''Trello API token (optional, will prompt if not provided)'')]),
          (''board_id'', JObj
           [(''type'', JStr ''string''),
            (''description'', JStr ''ID of the board to retrieve'')])]),
        (''required'', JList [JStr ''board_id''])]),
     (''create_board'',
      ''Create a new board'',
      JObj
       [(''type'', JStr ''object''),
        (''properties'', JObj
         [(''api_key'', JObj
           [(''type'', JStr ''string''),
            (''description'', JStr ''Trello API key (optional, will prompt if not provided)'')]),
          (''token'', JObj
           [(''type'', JStr ''string''),
            (''description'', JStr ''Trello API token (optional, will prompt if not provided)'')]),
          (''name'', JObj [(''type'', JStr ''string''), (''description'', JStr ''Name of the board'')]),
          (''desc'', JObj
           [(''type'', JStr ''string''),
            (''description'', JStr ''Description of the board'')]),
          (''organization_id'', JObj
           [(''type'', JStr ''string''),
            (''description'', JStr ''Organization ID (optional)'')]),
          (''default_lists'', JObj
           [(''type'', JStr ''boolean''),
            (''description'', JStr ''Create default lists''),
            (''default'', JBool True)]),
          (''prefs'', JObj
           [(''type'', JStr ''object''),
            (''description'', JStr ''Board preferences''),
            (''properties'', JObj
             [(''permissionLevel'', JObj
               [(''type'', JStr ''string''),
                (''enum'', JList [JStr ''private'', JStr ''org'', JStr ''public''])]),
              (''voting'', JObj
               [(''type'', JStr ''string''),
                (''enum'', JList [JStr ''disabled'', JStr ''members'', JStr ''observers'', JStr ''org'', JStr ''public''])]),
              (''comments'', JObj
               [(''type'', JStr ''string''),
                (''enum'', JList [JStr ''disabled'', JStr ''members'', JStr ''observers'', JStr ''org'', JStr ''public''])]),
              (''background'', JObj [(''type'', JStr ''string''), (''description'', JStr ''Board background'')])])])]),
        (''required'', JList [JStr ''name''])]),
     (''update_board'',
      ''Update an existing board'',
      JObj
       [(''type'', JStr ''object''),
        (''properties'', JObj
         [(''api_key'', JObj
           [(''type'', JStr ''string''),
            (''description'', JStr ''Trello API key (optional, will prompt if not provided)'')]),
          (''token'', JObj
           [(''type'', JStr ''string''),
            (''description'', JStr ''Trello API token (optional, will prompt if not provided)'')]),
          (''board_id'', JObj
           [(''type'', JStr ''string''),
            (''description'', JStr ''ID of the board to update'')]),
          (''name'', JObj [(''type'', JStr ''string''), (''description'', JStr ''New name for the board'')]),
          (''desc'', JObj
           [(''type'', JStr ''string''),
            (''description'', JStr ''New description for the board'')]),
          (''closed'', JObj
           [(''type'', JStr ''boolean''),
            (''description'', JStr ''Whether the board is closed'')]),
          (''prefs'', JObj
           [(''type'', JStr ''object''),
            (''description'', JStr ''Board preferences to update''),
            (''properties'', JObj
             [(''permissionLevel'', JObj
               [(''type'', JStr ''string''),
                (''enum'', JList [JStr ''private'', JStr ''org'', JStr ''public''])]),
              (''voting'', JObj
               [(''type'', JStr ''string''),
                (''enum'', JList [JStr ''disabled'', JStr ''members'', JStr ''observers'', JStr ''org'', JStr ''public''])]),
              (''comments'', JObj
               [(''type'', JStr ''string''),
                (''enum'', JList [JStr ''disabled'', JStr ''members'', JStr ''observers'', JStr ''org'', JStr ''public''])]),
              (''background'', JObj [(''type'', JStr ''string''), (''description'', JStr ''Board background'')])])])]),
        (''required'', JList [JStr ''board_id''])]),
     (''get_lists'',
      ''Get all lists on a board'',
      JObj
       [(''type'', JStr ''object''),
        (''properties'', JObj
         [(''api_key'', JObj
           [(''type'', JStr ''string''),
            (''description'', JStr ''Trello API key (optional, will prompt if not provided)'')]),
          (''token'', JObj
           [(''type'', JStr ''string''),
            (''description'', JStr ''Trello API token (optional, will prompt if not provided)'')]),
          (''board_id'', JObj [(''type'', JStr ''string''), (''description'', JStr ''ID of the board'')])]),
        (''required'', JList [JStr ''board_id''])]),
     (''create_list'',
      ''Create a new list on a board'',
      JObj
       [(''type'', JStr ''object''),
        (''properties'', JObj
         [(''api_key'', JObj
           [(''type'', JStr ''string''),
            (''description'', JStr ''Trello API key (optional, will prompt if not provided)'')]),
          (''token'', JObj
           [(''type'', JStr ''string''),
            (''description'', JStr ''Trello API token (optional, will prompt if not provided)'')]),
          (''name'', JObj [(''type'', JStr ''string''), (''description'', JStr ''Name of the list'')]),
          (''board_id'', JObj [(''type'', JStr ''string''), (''description'', JStr ''ID of the board'')]),
          (''pos'', JObj
           [(''type'', JList [JStr ''string'', JStr ''number'']),
            (''description'', JStr ''Position of the list'')])]),
        (''required'', JList [JStr ''name'', JStr ''board_id''])]),
     (''get_cards'',
      ''Get cards from a board or list'',
      JObj
       [(''type'', JStr ''object''),
        (''properties'', JObj
         [(''api_key'', JObj
           [(''type'', JStr ''string''),
            (''description'', JStr ''Trello API key (optional, will prompt if not provided)'')]),
          (''token'', JObj
           [(''type'', JStr ''string''),
            (''description'', JStr ''Trello API token (optional, will prompt if not provided)'')]),
          (''board_id'', JObj
           [(''type'', JStr ''string''),
            (''description'', JStr ''ID of the board (optional if list_id provided)'')]),
          (''list_id'', JObj
           [(''type'', JStr ''string''),
            (''description'', JStr ''ID of the list (optional if board_id provided)'')])]),
        (''required'', JList []),
        (''oneOf'', JList [JObj [(''required'', JList [JStr ''board_id''])], JObj [(''required'', JList [JStr ''list_id''])]])]),
     (''create_card'',
      ''Create a new card'',
      JObj
       [(''type'', JStr ''object''),
        (''properties'', JObj
         [(''api_key'', JObj
           [(''type'', JStr ''string''),
            (''description'', JStr ''Trello API key (optional, will prompt if not provided)'')]),
          (''token'', JObj
           [(''type'', JStr ''string''),
            (''description'', JStr ''Trello API token (optional, will prompt if not provided)'')]),
          (''name'', JObj [(''type'', JStr ''string''), (''description'', JStr ''Name of the card'')]),
          (''list_id'', JObj [(''type'', JStr ''string''), (''description'', JStr ''ID of the list'')]),
          (''desc'', JObj
           [(''type'', JStr ''string''),
            (''description'', JStr ''Description of the card'')]),
          (''pos'', JObj
           [(''type'', JList [JStr ''string'', JStr ''number'']),
            (''description'', JStr ''Position of the card'')]),
          (''due'', JObj [(''type'', JStr ''string''), (''description'', JStr ''Due date (ISO format)'')]),
          (''labels'', JObj
           [(''type'', JStr ''array''),
            (''items'', JObj [(''type'', JStr ''string'')]),
            (''description'', JStr ''Array of label IDs'')]),
          (''members'', JObj
           [(''type'', JStr ''array''),
            (''items'', JObj [(''type'', JStr ''string'')]),
            (''description'', JStr ''Array of member IDs'')])]),
        (''required'', JList [JStr ''name'', JStr ''list_id''])]),
     (''update_card'',
      ''Update an existing card'',
      JObj
       [(''type'', JStr ''object''),
        (''properties'', JObj
         [(''api_key'', JObj
           [(''type'', JStr ''string''),
            (''description'', JStr ''Trello API key (optional, will prompt if not provided)'')]),
          (''token'', JObj
           [(''type'', JStr ''string''),
            (''description'', JStr ''Trello API token (optional, will prompt if not provided)'')]),
          (''card_id'', JObj
           [(''type'', JStr ''string''),
            (''description'', JStr ''ID of the card to update'')]),
          (''name'', JObj [(''type'', JStr ''string''), (''description'', JStr ''New name for the card'')]),
          (''desc'', JObj
           [(''type'', JStr ''string''),
            (''description'', JStr ''New description for the card'')]),
          (''closed'', JObj
           [(''type'', JStr ''boolean''),
            (''description'', JStr ''Whether the card is closed'')]),
          (''list_id'', JObj
           [(''type'', JStr ''string''),
            (''description'', JStr ''Move card to this list ID'')]),
          (''pos'', JObj
           [(''type'', JList [JStr ''string'', JStr ''number'']),
            (''description'', JStr ''New position of the card'')]),
          (''due'', JObj
           [(''type'', JStr ''string''),
            (''description'', JStr ''Due date (ISO format, null to remove)'')])]),
        (''required'', JList [JStr ''card_id''])]),
     (''add_member_to_card'',
      ''Add a member to a card'',
      JObj
       [(''type'', JStr ''object''),
        (''properties'', JObj
         [(''api_key'', JObj
           [(''type'', JStr ''string''),
            (''description'', JStr ''Trello API key (optional, will prompt if not provided)'')]),
          (''token'', JObj
           [(''type'', JStr ''string''),
            (''description'', JStr ''Trello API token (optional, will prompt if not provided)'')]),
          (''card_id'', JObj [(''type'', JStr ''string''), (''description'', JStr ''ID of the card'')]),
          (''member_id'', JObj
           [(''type'', JStr ''string''),
            (''description'', JStr ''ID of the member to add'')])]),
        (''required'', JList [JStr ''card_id'', JStr ''member_id''])]),
     (''search_cards'',
      ''Search for cards across boards'',
      JObj
       [(''type'', JStr ''object''),
        (''properties'', JObj
         [(''api_key'', JObj
           [(''type'', JStr ''string''),
            (''description'', JStr ''Trello API key (optional, will prompt if not provided)'')]),
          (''token'', JObj
           [(''type'', JStr ''string''),
            (''description'', JStr ''Trello API token (optional, will prompt if not provided)'')]),
          (''query'', JObj [(''type'', JStr ''string''), (''description'', JStr ''Search query'')]),
          (''board_ids'', JObj
           [(''type'', JStr ''array''),
            (''items'', JObj [(''type'', JStr ''string'')]),
            (''description'', JStr ''Array of board IDs to search in (optional)'')]),
          (''limit'', JObj
           [(''type'', JStr ''integer''),
            (''description'', JStr ''Maximum number of results''),
            (''default'', JInt 50)])]),
        (''required'', JList [JStr ''query''])])]"

definition tool_names :: "string list" where
  "tool_names = map fst get_tools"

text \<open>The \<open>required\<close> list of a tool's input schema.\<close>

definition required_params :: "string \<Rightarrow> json list" where
  "required_params name =
     (case map_of get_tools name of
        Some (description, JObj schema) \<Rightarrow>
          (case map_of schema ''required'' of Some (JList ps) \<Rightarrow> ps | _ \<Rightarrow> [])
      | _ \<Rightarrow> [])"

text \<open>\<open>arguments.get(key)\<close> and \<open>arguments.get(key, default)\<close> on a dict.\<close>

definition dget_default :: "(string \<times> json) list \<Rightarrow> string \<Rightarrow> json \<Rightarrow> json" where
  "dget_default d k dflt = (case map_of d k of Some v \<Rightarrow> v | None \<Rightarrow> dflt)"

definition dget :: "(string \<times> json) list \<Rightarrow> string \<Rightarrow> json" where
  "dget d k = dget_default d k JNull"

text \<open>The message of \<open>x.attr\<close> on an object that has no such attribute.\<close>

definition no_attribute :: "json \<Rightarrow> string \<Rightarrow> exn" where
  "no_attribute x attr =
     AttributeError ([CHR 0x27] @ type_name x @ [CHR 0x27] @ '' object has no attribute '' @
                     [CHR 0x27] @ attr @ [CHR 0x27])"

text \<open>
  \<open>str(e)\<close>.  Of pydantic's text for a validation error, the first line and the names
  of the fields are kept.
\<close>

fun exn_str :: "exn \<Rightarrow> string" where
  "exn_str (ValueError m) = m"
| "exn_str (AttributeError m) = m"
| "exn_str (TypeError m) = m"
| "exn_str EOFError = ''EOF when reading a line''"
| "exn_str (ValidationError model names) =
     str_nat (length names) @ '' validation error'' @ (if length names = 1 then [] else ''s'') @
     '' for '' @ model @ concat (map (\<lambda>f. [CHR 0x0A] @ f) names)"
| "exn_str (TrelloAPIError m st) = m"

text \<open>The payloads: one text item, flagged with \<open>isError\<close> when the operation failed.\<close>

definition cross :: string where
  "cross = [CHR 0xE2, CHR 0x9D, CHR 0x8C]"

definition text_payload :: "string \<Rightarrow> json" where
  "text_payload t = JObj [(''content'', JList [JObj [(''type'', JStr ''text''), (''text'', JStr t)]])]"

definition error_payload :: "string \<Rightarrow> json" where
  "error_payload t =
     JObj [(''content'', JList [JObj [(''type'', JStr ''text''), (''text'', JStr t)]]),
           (''isError'', JBool True)]"

text \<open>
  The end of every handler (\<open>args\<close> is empty for a handler whose text does not use its
  arguments): the summary of a successful response is the payload; a
  \<open>TrelloAPIError\<close> raised in the handler's \<open>try\<close> block becomes an error payload
  \<open>Failed to <label>: <message>\<close>; any other exception leaves the handler.
\<close>

definition finish :: "lib \<Rightarrow> string \<Rightarrow> string \<Rightarrow> (string \<times> json) list \<Rightarrow> json tools_result \<Rightarrow> json tools_result" where
  "finish L tool label args r =
     (let r' = (case r of
                  (Returns response, tt, w) \<Rightarrow>
                    (case summary L tool args response of
                       Inr t \<Rightarrow> (Returns (text_payload t), tt, w)
                     | Inl e \<Rightarrow> (Raises e, tt, w))
                | other \<Rightarrow> other)
      in case r' of
           (Raises (TrelloAPIError m st), tt, w) \<Rightarrow>
             (Returns (error_payload (cross @ '' Failed to '' @ label @ '': '' @ m)), tt, w)
         | other \<Rightarrow> other)"

definition handle_list_boards :: "lib \<Rightarrow> TrelloCredentials \<Rightarrow> TrelloTools \<Rightarrow> world \<Rightarrow> json tools_result" where
  "handle_list_boards L credentials tt w =
     finish L ''list_boards'' ''list boards'' [] (with_client (list_boards credentials) tt w)"

definition handle_get_board ::
  "lib \<Rightarrow> TrelloCredentials \<Rightarrow> (string \<times> json) list \<Rightarrow> TrelloTools \<Rightarrow> world \<Rightarrow> json tools_result" where
  "handle_get_board L credentials args tt w =
     (let board_id = dget args ''board_id'' in
      finish L ''get_board'' ''get board'' [] (with_client (get_board credentials board_id) tt w))"

definition handle_create_board ::
  "lib \<Rightarrow> TrelloCredentials \<Rightarrow> (string \<times> json) list \<Rightarrow> TrelloTools \<Rightarrow> world \<Rightarrow> json tools_result" where
  "handle_create_board L credentials args tt w =
     (case make_CreateBoardRequest L (dget args ''name'') (dget args ''desc'')
             (dget args ''organization_id'') (dget_default args ''default_lists'' (JBool True))
             (dget args ''prefs'') of
        Inl e \<Rightarrow> finish L ''create_board'' ''create board'' [] (Raises e, tt, w)
      | Inr request \<Rightarrow>
          finish L ''create_board'' ''create board'' []
            (with_client (create_board credentials request) tt w))"

definition handle_update_board ::
  "lib \<Rightarrow> TrelloCredentials \<Rightarrow> (string \<times> json) list \<Rightarrow> TrelloTools \<Rightarrow> world \<Rightarrow> json tools_result" where
  "handle_update_board L credentials args tt w =
     (let board_id = dget args ''board_id'' in
      case make_UpdateBoardRequest L (dget args ''name'') (dget args ''desc'')
             (dget args ''closed'') (dget args ''prefs'') of
        Inl e \<Rightarrow> finish L ''update_board'' ''update board'' [] (Raises e, tt, w)
      | Inr request \<Rightarrow>
          finish L ''update_board'' ''update board'' []
            (with_client (update_board credentials board_id request) tt w))"

definition handle_get_lists ::
  "lib \<Rightarrow> TrelloCredentials \<Rightarrow> (string \<times> json) list \<Rightarrow> TrelloTools \<Rightarrow> world \<Rightarrow> json tools_result" where
  "handle_get_lists L credentials args tt w =
     (let board_id = dget args ''board_id'' in
      finish L ''get_lists'' ''get lists'' args (with_client (get_lists credentials board_id) tt w))"

definition handle_create_list ::
  "lib \<Rightarrow> TrelloCredentials \<Rightarrow> (string \<times> json) list \<Rightarrow> TrelloTools \<Rightarrow> world \<Rightarrow> json tools_result" where
  "handle_create_list L credentials args tt w =
     (case make_CreateListRequest L (dget args ''name'') (dget args ''board_id'') (dget args ''pos'') of
        Inl e \<Rightarrow> finish L ''create_list'' ''create list'' [] (Raises e, tt, w)
      | Inr request \<Rightarrow>
          finish L ''create_list'' ''create list'' []
            (with_client (create_list credentials request) tt w))"

definition handle_get_cards ::
  "lib \<Rightarrow> TrelloCredentials \<Rightarrow> (string \<times> json) list \<Rightarrow> TrelloTools \<Rightarrow> world \<Rightarrow> json tools_result" where
  "handle_get_cards L credentials args tt w =
     (let board_id = dget args ''board_id''; list_id = dget args ''list_id'' in
      finish L ''get_cards'' ''get cards'' args
        (with_client (get_cards credentials board_id list_id) tt w))"

text \<open>
  The due date of \<open>_create_card\<close> and \<open>_update_card\<close>: \<open>.replace\<close> on a value that is
  not a string raises AttributeError, which the \<open>except ValueError\<close> around the parsing
  does not catch; a string that does not parse makes the handler return an error payload
  (\<open>Inl\<close> of \<open>Inr\<close> here).
\<close>

definition parse_due :: "lib \<Rightarrow> json \<Rightarrow> exn + (unit + string)" where
  "parse_due L v =
     (case v of
        JStr s \<Rightarrow> (case fromisoformat L (replace_Z s) of
                    Some d \<Rightarrow> Inr (Inr d)
                  | None \<Rightarrow> Inr (Inl ()))
      | _ \<Rightarrow> Inl (no_attribute v ''replace''))"

definition handle_create_card ::
  "lib \<Rightarrow> TrelloCredentials \<Rightarrow> (string \<times> json) list \<Rightarrow> TrelloTools \<Rightarrow> world \<Rightarrow> json tools_result" where
  "handle_create_card L credentials args tt w =
     (let continue = (\<lambda>due_date.
            case make_CreateCardRequest L (dget args ''name'') (dget args ''list_id'')
                   (dget args ''desc'') (dget args ''pos'') due_date
                   (dget args ''labels'') (dget args ''members'') of
              Inl e \<Rightarrow> finish L ''create_card'' ''create card'' [] (Raises e, tt, w)
            | Inr request \<Rightarrow>
                finish L ''create_card'' ''create card'' []
                  (with_client (create_card credentials request) tt w))
      in if truthy (dget args ''due'') then
           (case parse_due L (dget args ''due'') of
              Inl e \<Rightarrow> finish L ''create_card'' ''create card'' [] (Raises e, tt, w)
            | Inr (Inl u) \<Rightarrow>
                (Returns (error_payload (cross @
                   '' Invalid due date format. Use ISO format (e.g., 2024-01-01T12:00:00Z)'')), tt, w)
            | Inr (Inr d) \<Rightarrow> continue (Some d))
         else continue None)"

definition handle_update_card ::
  "lib \<Rightarrow> TrelloCredentials \<Rightarrow> (string \<times> json) list \<Rightarrow> TrelloTools \<Rightarrow> world \<Rightarrow> json tools_result" where
  "handle_update_card L credentials args tt w =
     (let card_id = dget args ''card_id'';
          continue = (\<lambda>due_date.
            case make_UpdateCardRequest L (dget args ''name'') (dget args ''desc'')
                   (dget args ''closed'') (dget args ''list_id'') (dget args ''pos'') due_date of
              Inl e \<Rightarrow> finish L ''update_card'' ''update card'' [] (Raises e, tt, w)
            | Inr request \<Rightarrow>
                finish L ''update_card'' ''update card'' []
                  (with_client (update_card credentials card_id request) tt w))
      in case map_of args ''due'' of
           Some v \<Rightarrow>
             if v = JNull \<or> v = JStr [] then continue None
             else
               (case parse_due L v of
                  Inl e \<Rightarrow> finish L ''update_card'' ''update card'' [] (Raises e, tt, w)
                | Inr (Inl u) \<Rightarrow>
                    (Returns (error_payload (cross @
                       '' Invalid due date format. Use ISO format (e.g., 2024-01-01T12:00:00Z) or null to remove'')),
                     tt, w)
                | Inr (Inr d) \<Rightarrow> continue (Some d))
         | None \<Rightarrow> continue None)"

definition handle_add_member_to_card ::
  "lib \<Rightarrow> TrelloCredentials \<Rightarrow> (string \<times> json) list \<Rightarrow> TrelloTools \<Rightarrow> world \<Rightarrow> json tools_result" where
  "handle_add_member_to_card L credentials args tt w =
     (let card_id = dget args ''card_id''; member_id = dget args ''member_id'' in
      finish L ''add_member_to_card'' ''add member to card'' args
        (with_client (add_member_to_card credentials card_id member_id) tt w))"

definition handle_search_cards ::
  "lib \<Rightarrow> TrelloCredentials \<Rightarrow> (string \<times> json) list \<Rightarrow> TrelloTools \<Rightarrow> world \<Rightarrow> json tools_result" where
  "handle_search_cards L credentials args tt w =
     (case make_SearchRequest L (dget args ''query'') (dget args ''board_ids'')
             (dget_default args ''limit'' (JInt 50)) of
        Inl e \<Rightarrow> finish L ''search_cards'' ''search cards'' args (Raises e, tt, w)
      | Inr request \<Rightarrow>
          finish L ''search_cards'' ''search cards'' args
            (with_client (search_cards credentials request) tt w))"

text \<open>The \<open>if\<close>/\<open>elif\<close> chain of \<open>execute_tool\<close> over the tool name.\<close>

definition dispatch ::
  "lib \<Rightarrow> json \<Rightarrow> TrelloCredentials \<Rightarrow> (string \<times> json) list \<Rightarrow> TrelloTools \<Rightarrow> world \<Rightarrow> json tools_result" where
  "dispatch L tool_name credentials args tt w =
     (if tool_name = JStr ''list_boards'' then handle_list_boards L credentials tt w
      else if tool_name = JStr ''get_board'' then handle_get_board L credentials args tt w
      else if tool_name = JStr ''create_board'' then handle_create_board L credentials args tt w
      else if tool_name = JStr ''update_board'' then handle_update_board L credentials args tt w
      else if tool_name = JStr ''get_lists'' then handle_get_lists L credentials args tt w
      else if tool_name = JStr ''create_list'' then handle_create_list L credentials args tt w
      else if tool_name = JStr ''get_cards'' then handle_get_cards L credentials args tt w
      else if tool_name = JStr ''create_card'' then handle_create_card L credentials args tt w
      else if tool_name = JStr ''update_card'' then handle_update_card L credentials args tt w
      else if tool_name = JStr ''add_member_to_card'' then handle_add_member_to_card L credentials args tt w
      else if tool_name = JStr ''search_cards'' then handle_search_cards L credentials args tt w
      else (Returns (error_payload (cross @ '' Unknown tool: '' @ py_str tool_name)), tt, w))"

text \<open>
  The credentials of a call: the pair given in the arguments when both parts are true
  values, otherwise whatever the credential manager resolves.
\<close>

definition resolve_credentials ::
  "(string \<times> json) list \<Rightarrow> TrelloTools \<Rightarrow> world \<Rightarrow> (json \<times> json) tools_result" where
  "resolve_credentials args tt w =
     (let k = dget args ''api_key''; t = dget args ''token'' in
      if \<not> truthy k \<or> \<not> truthy t then
        (case get_or_prompt_credentials k t (credential_manager tt) w of
           (r, cm', w') \<Rightarrow> (r, tt\<lparr>credential_manager := cm'\<rparr>, w'))
      else (Returns (k, t), tt, w))"

text \<open>
  \<open>execute_tool\<close>: resolve the credentials, build and validate them, check them against
  the service, then run the tool.  Every exception becomes an error payload.
\<close>

definition execute_tool_body :: "lib \<Rightarrow> json \<Rightarrow> json \<Rightarrow> TrelloTools \<Rightarrow> world \<Rightarrow> json tools_result" where
  "execute_tool_body L tool_name arguments tt w =
     (case arguments of
        JObj args \<Rightarrow>
          (case resolve_credentials args tt w of
             (Returns (k, t), tt1, w1) \<Rightarrow>
               (case make_TrelloCredentials L k t of
                  Inl e \<Rightarrow> (Raises e, tt1, w1)
                | Inr credentials \<Rightarrow>
                    (case with_client (validate_credentials credentials) tt1 w1 of
                       (Returns validation_result, tt2, w2) \<Rightarrow>
                         (case validation_result of
                            NotValid m \<Rightarrow>
                              (Returns (error_payload (cross @ '' Invalid credentials: '' @ m)),
                               tt2, w2)
                          | Valid user_info \<Rightarrow> dispatch L tool_name credentials args tt2 w2)
                     | (Raises e, tt2, w2) \<Rightarrow> (Raises e, tt2, w2)
                     | (Blocks, tt2, w2) \<Rightarrow> (Blocks, tt2, w2)))
           | (Raises e, tt1, w1) \<Rightarrow> (Raises e, tt1, w1)
           | (Blocks, tt1, w1) \<Rightarrow> (Blocks, tt1, w1))
      | _ \<Rightarrow> (Raises (no_attribute arguments ''get''), tt, w))"

definition execute_tool :: "lib \<Rightarrow> json \<Rightarrow> json \<Rightarrow> TrelloTools \<Rightarrow> world \<Rightarrow> json tools_result" where
  "execute_tool L tool_name arguments tt w =
     (case execute_tool_body L tool_name arguments tt w of
        (Raises e, tt', w') \<Rightarrow>
          (Returns (error_payload (cross @ '' Tool execution failed: '' @ exn_str e)), tt', w')
      | other \<Rightarrow> other)"

section \<open>Protocol handler (mcp\_server.py)\<close>

record TrelloMCPServer =
  tools :: "TrelloTools option"
  initialized :: bool
  capabilities :: json

type_synonym 'a server_result = "'a outcome \<times> TrelloMCPServer \<times> world"

definition create_error_response :: "json \<Rightarrow> int \<Rightarrow> string \<Rightarrow> json" where
  "create_error_response request_id code message =
     JObj [(''jsonrpc'', JStr ''2.0''), (''id'', request_id),
           (''error'', JObj [(''code'', JInt code), (''message'', JStr message)])]"

definition result_response :: "json \<Rightarrow> json \<Rightarrow> json" where
  "result_response request_id result =
     JObj [(''jsonrpc'', JStr ''2.0''), (''id'', request_id), (''result'', result)]"

definition supported_versions :: "json list" where
  "supported_versions = [JStr ''2024-11-05'']"

text \<open>
  \<open>_handle_initialize\<close>: \<open>params.get\<close> on a value that is not a dict raises, and the
  handler's \<open>except Exception\<close> answers with code -32603.
\<close>

definition handle_initialize :: "json \<Rightarrow> json \<Rightarrow> TrelloMCPServer \<Rightarrow> json" where
  "handle_initialize request_id params srv =
     (case params of
        JObj ps \<Rightarrow>
          (let protocol_version = dget ps ''protocolVersion'' in
           if protocol_version \<notin> set supported_versions then
             create_error_response request_id (-32602)
               (''Unsupported protocol version: '' @ py_str protocol_version)
           else
             result_response request_id
               (JObj [(''protocolVersion'', protocol_version),
                      (''capabilities'', capabilities srv),
                      (''serverInfo'', JObj [(''name'', JStr ''trello-mcp''),
                                             (''version'', JStr ''1.0.0'')])]))
      | _ \<Rightarrow> create_error_response request_id (-32603) (exn_str (no_attribute params ''get'')))"

definition handle_tools_list :: "json \<Rightarrow> TrelloMCPServer \<Rightarrow> json" where
  "handle_tools_list request_id srv =
     (let tools_list =
            (case tools srv of
               None \<Rightarrow> []
             | Some tt \<Rightarrow>
                 map (\<lambda>(name, description, schema).
                        JObj [(''name'', JStr name), (''description'', JStr description),
                              (''inputSchema'', schema)]) get_tools)
      in result_response request_id (JObj [(''tools'', JList tools_list)]))"

text \<open>
  \<open>_handle_tool_call\<close>: \<open>execute_tool\<close> returns a payload for every exception, so the
  handler's own \<open>except Exception\<close> is reached only for \<open>params\<close> that are not a dict.
\<close>

definition handle_tool_call :: "lib \<Rightarrow> json \<Rightarrow> json \<Rightarrow> TrelloMCPServer \<Rightarrow> world \<Rightarrow> json server_result" where
  "handle_tool_call L request_id params srv w =
     (case params of
        JObj ps \<Rightarrow>
          (let tool_name = dget ps ''name'';
               arguments = dget_default ps ''arguments'' (JObj [])
           in if \<not> truthy tool_name then
                (Returns (create_error_response request_id (-32602) ''Tool name is required''), srv, w)
              else
                (case tools srv of
                   None \<Rightarrow>
                     (Returns (create_error_response request_id (-32603) ''Tools not initialized''),
                      srv, w)
                 | Some tt \<Rightarrow>
                     (case execute_tool L tool_name arguments tt w of
                        (Returns result, tt', w') \<Rightarrow>
                          (Returns (result_response request_id result), srv\<lparr>tools := Some tt'\<rparr>, w')
                      | (Raises e, tt', w') \<Rightarrow>
                          (Returns (create_error_response request_id (-32603) (exn_str e)),
                           srv\<lparr>tools := Some tt'\<rparr>, w')
                      | (Blocks, tt', w') \<Rightarrow> (Blocks, srv\<lparr>tools := Some tt'\<rparr>, w'))))
      | _ \<Rightarrow>
          (Returns (create_error_response request_id (-32603) (exn_str (no_attribute params ''get''))),
           srv, w))"

definition handle_resources_list :: "json \<Rightarrow> json" where
  "handle_resources_list request_id = result_response request_id (JObj [(''resources'', JList [])])"

definition handle_prompts_list :: "json \<Rightarrow> json" where
  "handle_prompts_list request_id = result_response request_id (JObj [(''prompts'', JList [])])"

text \<open>
  \<open>handle_request\<close>: the envelope is a dict (the HTTP layer refuses anything else).  No
  handler lets an exception out, so the outer \<open>except Exception\<close>, which would answer
  with code -32603, has nothing to catch.
\<close>

definition handle_request :: "lib \<Rightarrow> (string \<times> json) list \<Rightarrow> TrelloMCPServer \<Rightarrow> world \<Rightarrow> json server_result" where
  "handle_request L request srv w =
     (let method = dget request ''method'';
          params = dget_default request ''params'' (JObj []);
          request_id = dget request ''id''
      in if method = JStr ''initialize'' then
           (Returns (handle_initialize request_id params srv), srv, w)
         else if method = JStr ''tools/list'' then
           (Returns (handle_tools_list request_id srv), srv, w)
         else if method = JStr ''tools/call'' then handle_tool_call L request_id params srv w
         else if method = JStr ''resources/list'' then
           (Returns (handle_resources_list request_id), srv, w)
         else if method = JStr ''prompts/list'' then
           (Returns (handle_prompts_list request_id), srv, w)
         else
           (Returns (create_error_response request_id (-32601)
                       (''Method not found: '' @ py_str method)), srv, w))"

section \<open>Names for what the dispatcher does first\<close>

text \<open>The upstream call with which \<open>validate_credentials\<close> checks a credential pair.\<close>

definition members_me_request :: "TrelloCredentials \<Rightarrow> request" where
  "members_me_request credentials =
     \<lparr>rq_method = ''GET'', rq_endpoint = ''members/me'',
      rq_params = [(''fields'', JStr ''id,username,fullName,email''),
                   (''key'', JStr (api_key credentials)),
                   (''token'', JStr (token credentials))]\<rparr>"

text \<open>
  The dispatcher's state once the rate limiter has admitted the check (its state is then
  \<open>rl\<close>) and the check has been sent.
\<close>

definition checked_tools :: "RateLimiter \<Rightarrow> TrelloTools \<Rightarrow> TrelloTools" where
  "checked_tools rl tt = tt\<lparr>client := Some ((get_client tt)\<lparr>rate_limiter := rl\<rparr>)\<rparr>"

definition checked_world :: "TrelloCredentials \<Rightarrow> world \<Rightarrow> world" where
  "checked_world credentials w = w\<lparr>sent := sent w @ [members_me_request credentials]\<rparr>"

section \<open>Reading a response\<close>

text \<open>The value under a key of a response envelope, \<open>None\<close> when the key is absent.\<close>

definition field :: "json \<Rightarrow> string \<Rightarrow> json option" where
  "field r k = (case r of JObj kvs \<Rightarrow> map_of kvs k | _ \<Rightarrow> None)"

text \<open>A response that echoes the id \<open>rid\<close> and has exactly one of result and error.\<close>

definition well_formed :: "json \<Rightarrow> json \<Rightarrow> bool" where
  "well_formed rid resp \<longleftrightarrow>
     field resp ''id'' = Some rid \<and> (field resp ''result'' = None) \<noteq> (field resp ''error'' = None)"

section \<open>An instance of the parameters, for the examples\<close>

text \<open>
  Conversions that accept the JSON type of the field only, a date parser that knows one
  date, and a summary that names the tool.
\<close>

definition example_lib :: lib where
  "example_lib =
     \<lparr>as_str = (\<lambda>v. case v of JStr s \<Rightarrow> Some s | _ \<Rightarrow> None),
      as_bool = (\<lambda>v. case v of JBool b \<Rightarrow> Some b | _ \<Rightarrow> None),
      as_int = (\<lambda>v. case v of JInt i \<Rightarrow> Some i | _ \<Rightarrow> None),
      as_dict = (\<lambda>v. case v of JObj kvs \<Rightarrow> Some kvs | _ \<Rightarrow> None),
      as_str_list = (\<lambda>v. case v of JList [] \<Rightarrow> Some [] | _ \<Rightarrow> None),
      fromisoformat = (\<lambda>s. if s = ''2024-01-01T12:00:00+00:00''
                            then Some ''2024-01-01T12:00:00+00:00'' else None),
      summary = (\<lambda>tool args response. Inr (tool @ '' done''))\<rparr>"

text \<open>A world at time \<open>t\<close> whose service gives every call the same answer.\<close>

definition example_world :: "real \<Rightarrow> (real \<times> string) list \<Rightarrow> reply \<Rightarrow> world" where
  "example_world t lines answer =
     \<lparr>clock = t, stdin = lines, stdin_closed = True, upstream = (\<lambda>r. answer), sent = []\<rparr>"

definition example_server :: "TrelloTools option \<Rightarrow> TrelloMCPServer" where
  "example_server tt =
     \<lparr>tools = tt, initialized = True,
      capabilities = JObj [(''tools'', JObj [(''listChanged'', JBool False)]),
                           (''resources'', JObj []), (''prompts'', JObj [])]\<rparr>"

text \<open>A dispatcher that has made no call yet and whose cache holds a pair stamped at time 0.\<close>

definition example_cache :: CredentialManager where
  "example_cache =
     \<lparr>cache_duration = 28800,
      cached_credentials = Some \<lparr>ce_api_key = JStr ''k0'', ce_token = JStr ''t0'',
                                 ce_username = JNull, ce_password = JNull\<rparr>,
      credentials_timestamp = Some 0\<rparr>"

definition example_tools :: TrelloTools where
  "example_tools = \<lparr>client = None, credential_manager = example_cache\<rparr>"

text \<open>A dispatcher that has made no call yet and whose cache is empty.\<close>

definition example_fresh_tools :: TrelloTools where
  "example_fresh_tools =
     \<lparr>client = None,
      credential_manager = \<lparr>cache_duration = 28800, cached_credentials = None,
                              credentials_timestamp = None\<rparr>\<rparr>"

definition example_credentials :: TrelloCredentials where
  "example_credentials = \<lparr>api_key = ''k0'', token = ''t0''\<rparr>"

section \<open>Properties of the rate limiter\<close>

declare acquire.simps [simp del]

lemma acquire_locked: "lock_held rl \<Longrightarrow> acquire now rl = (Blocks, rl)"
  by (subst acquire.simps) simp

lemma min_list_in: "(xs :: 'a::linorder list) \<noteq> [] \<Longrightarrow> min_list xs \<in> set xs"
  by (simp add: min_list_Min)

lemma prune_wait_pos:
  assumes "prune now rl \<noteq> []"
  shows "time_window rl - (now - min_list (prune now rl)) > 0"
proof -
  have "min_list (prune now rl) \<in> set (prune now rl)" using assms by (rule min_list_in)
  then show ?thesis by (simp add: prune_def)
qed

text \<open>What a call does when it finds the lock free.\<close>

lemma acquire_unlocked:
  assumes "\<not> lock_held rl"
  shows "acquire now rl =
    (if int (length (prune now rl)) < max_requests rl
     then (Returns (), rl\<lparr>requests := prune now rl @ [now]\<rparr>)
     else if prune now rl = []
     then (Raises (ValueError ''min() arg is an empty sequence''), rl\<lparr>requests := []\<rparr>)
     else (Blocks, rl\<lparr>lock_held := True, requests := prune now rl\<rparr>))"
  using assms prune_wait_pos[of now rl]
  apply (subst acquire.simps)
  apply (simp add: Let_def acquire_locked)
  done

lemma acquire_Returns:
  assumes "acquire now rl = (Returns u, rl')"
  shows "int (length (prune now rl)) < max_requests rl \<and>
         rl' = rl\<lparr>requests := prune now rl @ [now]\<rparr> \<and> \<not> lock_held rl"
proof (cases "lock_held rl")
  case True
  with assms show ?thesis by (simp add: acquire_locked)
next
  case False
  with assms show ?thesis by (simp add: acquire_unlocked split: if_splits)
qed

lemma admissions_locked: "lock_held rl \<Longrightarrow> admissions nows rl = []"
  by (induction nows) (simp_all add: acquire_locked)

lemma length_filter_mono:
  "(\<And>x. x \<in> set xs \<Longrightarrow> P x \<Longrightarrow> Q x) \<Longrightarrow> length (filter P xs) \<le> length (filter Q xs)"
  by (induction xs) auto

lemma bounded_log_snoc:
  assumes "bounded_log m w hist" and "int (length (filter (\<lambda>r. now - r < w) hist)) < m"
  shows "bounded_log m w (hist @ [now])"
  unfolding bounded_log_def
proof
  fix t
  show "int (length (filter (in_window w t) (hist @ [now]))) \<le> m"
  proof (cases "now \<le> t")
    case False
    then have "filter (in_window w t) (hist @ [now]) = filter (in_window w t) hist"
      by (simp add: in_window_def)
    with assms(1) show ?thesis by (simp add: bounded_log_def)
  next
    case True
    have "length (filter (in_window w t) hist) \<le> length (filter (\<lambda>r. now - r < w) hist)"
      using True by (intro length_filter_mono) (simp add: in_window_def)
    with assms(2) show ?thesis by simp
  qed
qed

lemma prune_prune:
  assumes "prev \<le> now" and "requests rl = filter (\<lambda>r. prev - r < time_window rl) hist"
  shows "prune now rl = filter (\<lambda>r. now - r < time_window rl) hist"
  using assms by (auto simp: prune_def intro: filter_cong)

text \<open>
  The invariant of a run: the limiter's list is the part of the history of admissions
  that lies within the window of the previous reading.
\<close>

lemma admissions_bounded:
  assumes "0 < w"
  shows "sorted (prev # nows) \<Longrightarrow> \<not> lock_held rl \<Longrightarrow> max_requests rl = m
    \<Longrightarrow> time_window rl = w
    \<Longrightarrow> requests rl = filter (\<lambda>r. prev - r < w) hist \<Longrightarrow> bounded_log m w hist
    \<Longrightarrow> bounded_log m w (hist @ admissions nows rl)"
proof (induction nows arbitrary: rl prev hist)
  case Nil
  then show ?case by simp
next
  case (Cons now nows)
  have le: "prev \<le> now" and srt: "sorted (now # nows)" using Cons.prems(1) by auto
  have pr: "prune now rl = filter (\<lambda>r. now - r < w) hist"
    using prune_prune[OF le, of rl hist] Cons.prems(4,5) by simp
  consider (adm) "int (length (prune now rl)) < m"
    | (rais) "\<not> int (length (prune now rl)) < m" "prune now rl = []"
    | (blk) "\<not> int (length (prune now rl)) < m" "prune now rl \<noteq> []" by blast
  then show ?case
  proof cases
    case adm
    let ?rl' = "rl\<lparr>requests := prune now rl @ [now]\<rparr>"
    have acq: "acquire now rl = (Returns (), ?rl')"
      using adm Cons.prems(2,3) by (simp add: acquire_unlocked)
    have b: "bounded_log m w (hist @ [now])"
      using bounded_log_snoc[OF Cons.prems(6)] adm pr by simp
    have req: "requests ?rl' = filter (\<lambda>r. now - r < w) (hist @ [now])"
      using pr assms by simp
    have "bounded_log m w ((hist @ [now]) @ admissions nows ?rl')"
      using Cons.IH[of now ?rl' "hist @ [now]"] srt Cons.prems(2,3,4) req b by simp
    then show ?thesis using acq by simp
  next
    case rais
    let ?rl' = "rl\<lparr>requests := []\<rparr>"
    have acq: "acquire now rl = (Raises (ValueError ''min() arg is an empty sequence''), ?rl')"
      using rais Cons.prems(2,3) by (simp add: acquire_unlocked)
    have req: "requests ?rl' = filter (\<lambda>r. now - r < w) hist"
      using pr rais by simp
    have "bounded_log m w (hist @ admissions nows ?rl')"
      using Cons.IH[of now ?rl' hist] srt Cons.prems(2,3,4,6) req by simp
    then show ?thesis using acq by simp
  next
    case blk
    let ?rl' = "rl\<lparr>lock_held := True, requests := prune now rl\<rparr>"
    have acq: "acquire now rl = (Blocks, ?rl')"
      using blk Cons.prems(2,3) by (simp add: acquire_unlocked)
    then show ?thesis using Cons.prems(6) by (simp add: admissions_locked)
  qed
qed

lemma window_empty: "w \<le> 0 \<Longrightarrow> filter (in_window w t) xs = []"
  by (auto simp: in_window_def filter_empty_conv)

text \<open>
  C1.  A limiter built with a maximum \<open>m \<ge> 0\<close> and a window \<open>w\<close> serves calls whose clock
  readings do not decrease.  Then no window of \<open>w\<close> seconds, wherever it ends, holds more
  than \<open>m\<close> of the admissions of the run; and a call that is admitted found fewer than
  \<open>max_requests\<close> entries left after pruning, and appended its own reading to them.
\<close>

theorem acquire_window_bound:
  assumes "sorted nows" and "0 \<le> m"
  shows "int (length (filter (in_window w t) (admissions nows (RateLimiter_init m w)))) \<le> m \<and>
         (acquire now rl = (Returns (), rl') \<longrightarrow>
            int (length (prune now rl)) < max_requests rl \<and>
            requests rl' = prune now rl @ [now])"
proof
  show "int (length (filter (in_window w t) (admissions nows (RateLimiter_init m w)))) \<le> m"
  proof (cases "0 < w")
    case True
    have s: "sorted ((case nows of [] \<Rightarrow> 0 | x # _ \<Rightarrow> x) # nows)"
      using assms(1) by (cases nows) auto
    from admissions_bounded[OF True s, of "RateLimiter_init m w" m "[]"] assms(2)
    show ?thesis by (simp add: RateLimiter_init_def bounded_log_def)
  next
    case False
    then show ?thesis using assms(2) by (simp add: window_empty)
  qed
next
  show "acquire now rl = (Returns (), rl') \<longrightarrow>
          int (length (prune now rl)) < max_requests rl \<and> requests rl' = prune now rl @ [now]"
    using acquire_Returns[of now rl "()" rl'] by auto
qed

theorem acquire_window_bound_witness:
  "sorted [0, 1, 2 :: real] \<and> (0::int) \<le> 2 \<and>
   admissions [0, 1, 2] (RateLimiter_init 2 10) = [0, 1] \<and>
   int (length (filter (in_window 10 2) (admissions [0, 1, 2] (RateLimiter_init 2 10)))) \<le> 2 \<and>
   acquire 0 (RateLimiter_init 2 10) = (Returns (), (RateLimiter_init 2 10)\<lparr>requests := [0]\<rparr>) \<and>
   int (length (prune 0 (RateLimiter_init 2 10))) < max_requests (RateLimiter_init 2 10)"
  using acquire_window_bound[of "[0, 1, 2]" 2 10 2 0 "RateLimiter_init 2 10"
          "(RateLimiter_init 2 10)\<lparr>requests := [0]\<rparr>"]
  by (simp add: acquire_unlocked acquire_locked prune_def RateLimiter_init_def)

text \<open>
  C2.  A limiter for one request per ten seconds admits a call at time 0; a second call
  at time 1 finds the window full, sleeps, and calls itself while it holds the lock: it
  never returns, and the lock stays held.
\<close>

theorem acquire_full_window_blocks:
  "acquire 1 (snd (acquire 0 (RateLimiter_init 1 10))) =
     (Blocks, \<lparr>max_requests = 1, time_window = 10, requests = [0], lock_held = True\<rparr>)"
  by (simp add: acquire_unlocked acquire_locked prune_def RateLimiter_init_def)

section \<open>Properties of the credential manager\<close>

lemma is_cached_valid_Some:
  assumes "cached_credentials cm = Some c" and "credentials_timestamp cm = Some ts"
  shows "is_cached_valid now cm =
           (if now - ts \<le> cache_duration cm then (True, cm) else (False, clear_credentials cm))"
  using assms by (simp add: is_cached_valid_def clear_credentials_def)

lemma get_cached_valid:
  assumes "cached_credentials cm = Some c" and "credentials_timestamp cm = Some ts"
    and "now - ts \<le> cache_duration cm"
  shows "get_cached_credentials now cm = (Some (ce_api_key c, ce_token c), cm)"
  using assms by (simp add: get_cached_credentials_def is_cached_valid_Some)

lemma get_cached_expired:
  assumes "cached_credentials cm = Some c" and "credentials_timestamp cm = Some ts"
    and "now - ts > cache_duration cm"
  shows "get_cached_credentials now cm = (None, clear_credentials cm)"
  using assms by (simp add: get_cached_credentials_def is_cached_valid_Some)

lemma get_cached_None:
  assumes "get_cached_credentials now cm = (None, cm')"
  shows "cm' = snd (is_cached_valid now cm) \<and>
         \<not> (\<exists>c ts. cached_credentials cm = Some c \<and> credentials_timestamp cm = Some ts \<and>
                     now - ts \<le> cache_duration cm)"
  using assms
  by (auto simp: get_cached_credentials_def is_cached_valid_def
           split: option.splits if_splits bool.splits prod.splits)

lemma prompt_Returns:
  assumes "prompt_for_credentials cm w = (Returns p, cm', w')"
  shows "cm' = cache_credentials (clock w') (fst p) (snd p) JNull JNull cm"
  using assms
  by (auto simp: prompt_for_credentials_def split: prod.splits outcome.splits)


text \<open>
  C6.  Resolution takes the first of three paths, a part of the explicit pair being
  present when it is a true value (neither \<open>None\<close> nor empty).  (1) Both parts present:
  the pair is returned and cached with the current time.  (2) Otherwise, a cached pair
  whose age is at most \<open>cache_duration\<close> is returned, and neither the manager nor the
  world changes.  (3) Otherwise the user is asked, the expired entry being dropped first;
  a pair that comes back is the cached pair, stamped with the time of its return.
\<close>

theorem resolution_order:
  "(truthy k \<and> truthy t \<longrightarrow>
      get_or_prompt_credentials k t cm w =
        (Returns (k, t),
         cm\<lparr>cached_credentials :=
              Some \<lparr>ce_api_key = k, ce_token = t, ce_username = JNull, ce_password = JNull\<rparr>,
            credentials_timestamp := Some (clock w)\<rparr>, w)) \<and>
   (\<not> (truthy k \<and> truthy t) \<and> cached_credentials cm = Some c \<and>
    credentials_timestamp cm = Some ts \<and> clock w - ts \<le> cache_duration cm \<longrightarrow>
      get_or_prompt_credentials k t cm w = (Returns (ce_api_key c, ce_token c), cm, w)) \<and>
   (\<not> (truthy k \<and> truthy t) \<and>
    \<not> (\<exists>c ts. cached_credentials cm = Some c \<and> credentials_timestamp cm = Some ts \<and>
               clock w - ts \<le> cache_duration cm) \<longrightarrow>
      get_or_prompt_credentials k t cm w =
        prompt_for_credentials (snd (is_cached_valid (clock w) cm)) w \<and>
      (get_or_prompt_credentials k t cm w = (Returns p, cm', w') \<longrightarrow>
         cached_credentials cm' =
           Some \<lparr>ce_api_key = fst p, ce_token = snd p, ce_username = JNull, ce_password = JNull\<rparr> \<and>
         credentials_timestamp cm' = Some (clock w')))"
proof (intro conjI impI)
  assume "truthy k \<and> truthy t"
  then show "get_or_prompt_credentials k t cm w =
        (Returns (k, t),
         cm\<lparr>cached_credentials :=
              Some \<lparr>ce_api_key = k, ce_token = t, ce_username = JNull, ce_password = JNull\<rparr>,
            credentials_timestamp := Some (clock w)\<rparr>, w)"
    by (simp add: get_or_prompt_credentials_def cache_credentials_def)
next
  assume a: "\<not> (truthy k \<and> truthy t) \<and> cached_credentials cm = Some c \<and>
    credentials_timestamp cm = Some ts \<and> clock w - ts \<le> cache_duration cm"
  then have "get_cached_credentials (clock w) cm = (Some (ce_api_key c, ce_token c), cm)"
    by (simp add: get_cached_valid)
  with a show "get_or_prompt_credentials k t cm w = (Returns (ce_api_key c, ce_token c), cm, w)"
    by (auto simp: get_or_prompt_credentials_def)
next
  assume a: "\<not> (truthy k \<and> truthy t) \<and>
    \<not> (\<exists>c ts. cached_credentials cm = Some c \<and> credentials_timestamp cm = Some ts \<and>
               clock w - ts \<le> cache_duration cm)"
  then have g: "get_cached_credentials (clock w) cm = (None, snd (is_cached_valid (clock w) cm))"
    by (auto simp: get_cached_credentials_def is_cached_valid_def
             split: option.splits if_splits bool.splits prod.splits)
  with a show eq: "get_or_prompt_credentials k t cm w =
        prompt_for_credentials (snd (is_cached_valid (clock w) cm)) w"
    by (auto simp: get_or_prompt_credentials_def)
  assume "get_or_prompt_credentials k t cm w = (Returns p, cm', w')"
  with eq have "prompt_for_credentials (snd (is_cached_valid (clock w) cm)) w = (Returns p, cm', w')"
    by simp
  from prompt_Returns[OF this]
  show "cached_credentials cm' =
           Some \<lparr>ce_api_key = fst p, ce_token = snd p, ce_username = JNull, ce_password = JNull\<rparr>"
    and "credentials_timestamp cm' = Some (clock w')"
    by (simp_all add: cache_credentials_def)
qed

lemma strip_key: "py_strip ''0123456789abcdef0123456789abcdef'' = ''0123456789abcdef0123456789abcdef''"
  by (simp add: py_strip_def is_space_def)

lemma strip_tok: "py_strip '' fedcba9876543210fedcba9876543210'' = ''fedcba9876543210fedcba9876543210''"
  by (simp add: py_strip_def is_space_def)

lemma strip_short: "py_strip ''oops'' = ''oops''"
  by (simp add: py_strip_def is_space_def)


theorem resolution_order_witness:
  "(truthy (JStr ''k1'') \<and> truthy (JStr ''t1'')) \<and>
   get_or_prompt_credentials (JStr ''k1'') (JStr ''t1'')
       \<lparr>cache_duration = 28800, cached_credentials = None, credentials_timestamp = None\<rparr>
       \<lparr>clock = 5, stdin = [], stdin_closed = True, upstream = (\<lambda>r. ClientError []), sent = []\<rparr> =
     (Returns (JStr ''k1'', JStr ''t1''),
      \<lparr>cache_duration = 28800,
        cached_credentials = Some \<lparr>ce_api_key = JStr ''k1'', ce_token = JStr ''t1'',
                                   ce_username = JNull, ce_password = JNull\<rparr>,
        credentials_timestamp = Some 5\<rparr>,
      \<lparr>clock = 5, stdin = [], stdin_closed = True, upstream = (\<lambda>r. ClientError []), sent = []\<rparr>) \<and>
   \<not> (truthy (JStr ''k1'') \<and> truthy JNull) \<and>
   get_or_prompt_credentials (JStr ''k1'') JNull
       \<lparr>cache_duration = 28800,
        cached_credentials = Some \<lparr>ce_api_key = JStr ''k0'', ce_token = JStr ''t0'',
                                   ce_username = JNull, ce_password = JNull\<rparr>,
        credentials_timestamp = Some 0\<rparr>
       \<lparr>clock = 28800, stdin = [], stdin_closed = True, upstream = (\<lambda>r. ClientError []), sent = []\<rparr> =
     (Returns (JStr ''k0'', JStr ''t0''),
      \<lparr>cache_duration = 28800,
        cached_credentials = Some \<lparr>ce_api_key = JStr ''k0'', ce_token = JStr ''t0'',
                                   ce_username = JNull, ce_password = JNull\<rparr>,
        credentials_timestamp = Some 0\<rparr>,
      \<lparr>clock = 28800, stdin = [], stdin_closed = True, upstream = (\<lambda>r. ClientError []), sent = []\<rparr>) \<and>
   get_or_prompt_credentials JNull JNull
       \<lparr>cache_duration = 28800, cached_credentials = None, credentials_timestamp = None\<rparr>
       \<lparr>clock = 7, stdin = [(1, ''oops''), (2, ''0123456789abcdef0123456789abcdef''),
                             (3, '' fedcba9876543210fedcba9876543210'')],
        stdin_closed = True, upstream = (\<lambda>r. ClientError []), sent = []\<rparr> =
     (Returns (JStr ''0123456789abcdef0123456789abcdef'', JStr ''fedcba9876543210fedcba9876543210''),
      \<lparr>cache_duration = 28800,
        cached_credentials = Some \<lparr>ce_api_key = JStr ''0123456789abcdef0123456789abcdef'',
                                   ce_token = JStr ''fedcba9876543210fedcba9876543210'',
                                   ce_username = JNull, ce_password = JNull\<rparr>,
        credentials_timestamp = Some 13\<rparr>,
      \<lparr>clock = 13, stdin = [], stdin_closed = True, upstream = (\<lambda>r. ClientError []), sent = []\<rparr>)"
proof -
  let ?w1 = "\<lparr>clock = 5, stdin = [], stdin_closed = True, upstream = (\<lambda>r. ClientError []), sent = []\<rparr>"
  let ?cm0 = "\<lparr>cache_duration = 28800, cached_credentials = None, credentials_timestamp = None\<rparr>"
  let ?c = "\<lparr>ce_api_key = JStr ''k0'', ce_token = JStr ''t0'', ce_username = JNull, ce_password = JNull\<rparr>"
  let ?cm2 = "\<lparr>cache_duration = 28800, cached_credentials = Some ?c, credentials_timestamp = Some 0\<rparr>"
  let ?w2 = "\<lparr>clock = 28800, stdin = [], stdin_closed = True, upstream = (\<lambda>r. ClientError []), sent = []\<rparr>"
  let ?w3 = "\<lparr>clock = 7, stdin = [(1, ''oops''), (2, ''0123456789abcdef0123456789abcdef''),
                             (3, '' fedcba9876543210fedcba9876543210'')],
        stdin_closed = True, upstream = (\<lambda>r. ClientError []), sent = []\<rparr>"
  have p1: "get_or_prompt_credentials (JStr ''k1'') (JStr ''t1'') ?cm0 ?w1 =
        (Returns (JStr ''k1'', JStr ''t1''),
         ?cm0\<lparr>cached_credentials :=
              Some \<lparr>ce_api_key = JStr ''k1'', ce_token = JStr ''t1'', ce_username = JNull, ce_password = JNull\<rparr>,
            credentials_timestamp := Some (clock ?w1)\<rparr>, ?w1)"
    using resolution_order[of "JStr ''k1''" "JStr ''t1''" ?cm0 ?w1] by simp
  have p2: "get_or_prompt_credentials (JStr ''k1'') JNull ?cm2 ?w2 = (Returns (ce_api_key ?c, ce_token ?c), ?cm2, ?w2)"
    using resolution_order[of "JStr ''k1''" JNull ?cm2 ?w2 ?c 0] by simp
  have p3: "get_or_prompt_credentials JNull JNull ?cm0 ?w3 =
        prompt_for_credentials (snd (is_cached_valid (clock ?w3) ?cm0)) ?w3"
    using resolution_order[of JNull JNull ?cm0 ?w3] by simp
  have r: "prompt_for_credentials ?cm0 ?w3 =
     (Returns (JStr ''0123456789abcdef0123456789abcdef'', JStr ''fedcba9876543210fedcba9876543210''),
      \<lparr>cache_duration = 28800,
        cached_credentials = Some \<lparr>ce_api_key = JStr ''0123456789abcdef0123456789abcdef'',
                                   ce_token = JStr ''fedcba9876543210fedcba9876543210'',
                                   ce_username = JNull, ce_password = JNull\<rparr>,
        credentials_timestamp = Some 13\<rparr>,
      \<lparr>clock = 13, stdin = [], stdin_closed = True, upstream = (\<lambda>r. ClientError []), sent = []\<rparr>)"
    by (simp add: prompt_for_credentials_def cache_credentials_def strip_key strip_tok strip_short Let_def)
  show ?thesis using p1 p2 p3 r by (simp add: is_cached_valid_def)
qed

text \<open>
  C7.  A cached entry stamped \<open>ts\<close> is valid at time \<open>now\<close> exactly when
  \<open>now - ts \<le> cache_duration\<close>.  A resolution without a full explicit pair returns the
  cached pair while that holds, and leaves the manager and the world (the user's input
  included) as they were; once \<open>now - ts > cache_duration\<close> it clears the cache and asks
  the user.
\<close>

theorem cache_expiry:
  assumes "cached_credentials cm = Some c" and "credentials_timestamp cm = Some ts"
    and "\<not> (truthy k \<and> truthy t)"
  shows "(fst (is_cached_valid now cm) \<longleftrightarrow> now - ts \<le> cache_duration cm) \<and>
         (clock w - ts \<le> cache_duration cm \<longrightarrow>
            get_or_prompt_credentials k t cm w = (Returns (ce_api_key c, ce_token c), cm, w)) \<and>
         (clock w - ts > cache_duration cm \<longrightarrow>
            get_or_prompt_credentials k t cm w = prompt_for_credentials (clear_credentials cm) w)"
proof (intro conjI impI)
  show "fst (is_cached_valid now cm) \<longleftrightarrow> now - ts \<le> cache_duration cm"
    using assms(1,2) by (simp add: is_cached_valid_Some)
next
  assume "clock w - ts \<le> cache_duration cm"
  then have "get_cached_credentials (clock w) cm = (Some (ce_api_key c, ce_token c), cm)"
    using assms(1,2) by (simp add: get_cached_valid)
  then show "get_or_prompt_credentials k t cm w = (Returns (ce_api_key c, ce_token c), cm, w)"
    using assms(3) by (auto simp: get_or_prompt_credentials_def)
next
  assume "clock w - ts > cache_duration cm"
  then have "get_cached_credentials (clock w) cm = (None, clear_credentials cm)"
    using assms(1,2) by (simp add: get_cached_expired)
  then show "get_or_prompt_credentials k t cm w = prompt_for_credentials (clear_credentials cm) w"
    using assms(3) by (auto simp: get_or_prompt_credentials_def)
qed

theorem cache_expiry_witness:
  "get_or_prompt_credentials JNull JNull
       \<lparr>cache_duration = 28800,
        cached_credentials = Some \<lparr>ce_api_key = JStr ''k0'', ce_token = JStr ''t0'',
                                   ce_username = JNull, ce_password = JNull\<rparr>,
        credentials_timestamp = Some 100\<rparr>
       \<lparr>clock = 28899, stdin = [(1, ''typed'')], stdin_closed = True,
        upstream = (\<lambda>r. ClientError []), sent = []\<rparr> =
     (Returns (JStr ''k0'', JStr ''t0''),
      \<lparr>cache_duration = 28800,
        cached_credentials = Some \<lparr>ce_api_key = JStr ''k0'', ce_token = JStr ''t0'',
                                   ce_username = JNull, ce_password = JNull\<rparr>,
        credentials_timestamp = Some 100\<rparr>,
      \<lparr>clock = 28899, stdin = [(1, ''typed'')], stdin_closed = True,
        upstream = (\<lambda>r. ClientError []), sent = []\<rparr>) \<and>
   get_or_prompt_credentials JNull JNull
       \<lparr>cache_duration = 28800,
        cached_credentials = Some \<lparr>ce_api_key = JStr ''k0'', ce_token = JStr ''t0'',
                                   ce_username = JNull, ce_password = JNull\<rparr>,
        credentials_timestamp = Some 100\<rparr>
       \<lparr>clock = 28901, stdin = [(2, ''0123456789abcdef0123456789abcdef''),
                                 (3, '' fedcba9876543210fedcba9876543210'')],
        stdin_closed = True, upstream = (\<lambda>r. ClientError []), sent = []\<rparr> =
     (Returns (JStr ''0123456789abcdef0123456789abcdef'', JStr ''fedcba9876543210fedcba9876543210''),
      \<lparr>cache_duration = 28800,
        cached_credentials = Some \<lparr>ce_api_key = JStr ''0123456789abcdef0123456789abcdef'',
                                   ce_token = JStr ''fedcba9876543210fedcba9876543210'',
                                   ce_username = JNull, ce_password = JNull\<rparr>,
        credentials_timestamp = Some 28906\<rparr>,
      \<lparr>clock = 28906, stdin = [], stdin_closed = True,
        upstream = (\<lambda>r. ClientError []), sent = []\<rparr>) \<and>
   fst (is_cached_valid 28900
       \<lparr>cache_duration = 28800,
        cached_credentials = Some \<lparr>ce_api_key = JStr ''k0'', ce_token = JStr ''t0'',
                                   ce_username = JNull, ce_password = JNull\<rparr>,
        credentials_timestamp = Some 100\<rparr>)"
proof -
  let ?c = "\<lparr>ce_api_key = JStr ''k0'', ce_token = JStr ''t0'', ce_username = JNull, ce_password = JNull\<rparr>"
  let ?cm = "\<lparr>cache_duration = 28800, cached_credentials = Some ?c, credentials_timestamp = Some 100\<rparr>"
  let ?w1 = "\<lparr>clock = 28899, stdin = [(1, ''typed'')], stdin_closed = True,
        upstream = (\<lambda>r. ClientError []), sent = []\<rparr>"
  let ?w2 = "\<lparr>clock = 28901, stdin = [(2, ''0123456789abcdef0123456789abcdef''),
                                 (3, '' fedcba9876543210fedcba9876543210'')],
        stdin_closed = True, upstream = (\<lambda>r. ClientError []), sent = []\<rparr>"
  have h1: "cached_credentials ?cm = Some ?c" and h2: "credentials_timestamp ?cm = Some 100"
    and h3: "\<not> (truthy JNull \<and> truthy JNull)" by simp_all
  have r: "prompt_for_credentials (clear_credentials ?cm) ?w2 =
     (Returns (JStr ''0123456789abcdef0123456789abcdef'', JStr ''fedcba9876543210fedcba9876543210''),
      \<lparr>cache_duration = 28800,
        cached_credentials = Some \<lparr>ce_api_key = JStr ''0123456789abcdef0123456789abcdef'',
                                   ce_token = JStr ''fedcba9876543210fedcba9876543210'',
                                   ce_username = JNull, ce_password = JNull\<rparr>,
        credentials_timestamp = Some 28906\<rparr>,
      \<lparr>clock = 28906, stdin = [], stdin_closed = True,
        upstream = (\<lambda>r. ClientError []), sent = []\<rparr>)"
    by (simp add: prompt_for_credentials_def cache_credentials_def clear_credentials_def
                  strip_key strip_tok Let_def)
  show ?thesis
    using cache_expiry[OF h1 h2 h3, of 28900 ?w1] cache_expiry[OF h1 h2 h3, of 28900 ?w2] r
    by simp
qed

section \<open>Properties of the protocol handler\<close>

text \<open>
  C8.  For an \<open>initialize\<close> request whose params are an object (as the handler declares
  them), the answer is an error exactly when the requested \<open>protocolVersion\<close> is not the
  one accepted version \<open>2024-11-05\<close>.  The error has code -32602 and a message that starts
  with \<open>Unsupported protocol version\<close>; a success carries the version, the capabilities and
  the server info.  Either way the server and the world are unchanged.
\<close>

theorem initialize_version_check:
  assumes "dget request ''method'' = JStr ''initialize''"
    and "dget_default request ''params'' (JObj []) = JObj ps"
  shows "\<exists>resp. handle_request L request srv w = (Returns resp, srv, w) \<and>
           (field resp ''error'' \<noteq> None \<longleftrightarrow> dget ps ''protocolVersion'' \<noteq> JStr ''2024-11-05'') \<and>
           (dget ps ''protocolVersion'' \<noteq> JStr ''2024-11-05'' \<longrightarrow>
              field resp ''result'' = None \<and>
              field resp ''error'' =
                Some (JObj [(''code'', JInt (-32602)),
                            (''message'', JStr (''Unsupported protocol version: '' @
                                                py_str (dget ps ''protocolVersion'')))])) \<and>
           (dget ps ''protocolVersion'' = JStr ''2024-11-05'' \<longrightarrow>
              field resp ''result'' =
                Some (JObj [(''protocolVersion'', JStr ''2024-11-05''),
                            (''capabilities'', capabilities srv),
                            (''serverInfo'', JObj [(''name'', JStr ''trello-mcp''),
                                                   (''version'', JStr ''1.0.0'')])]))"
  using assms
  by (simp add: handle_request_def handle_initialize_def supported_versions_def field_def
                create_error_response_def result_response_def Let_def)

theorem initialize_version_check_witness:
  "field (case fst (handle_request example_lib
                 [(''jsonrpc'', JStr ''2.0''), (''id'', JInt 1), (''method'', JStr ''initialize''),
                  (''params'', JObj [(''protocolVersion'', JStr ''9999-01-01'')])]
                 (example_server None) (example_world 0 [] (ClientError []))) of
            Returns resp \<Rightarrow> resp | _ \<Rightarrow> JNull) ''error'' =
     Some (JObj [(''code'', JInt (-32602)),
                 (''message'', JStr ''Unsupported protocol version: 9999-01-01'')]) \<and>
   field (case fst (handle_request example_lib
                 [(''jsonrpc'', JStr ''2.0''), (''id'', JInt 2), (''method'', JStr ''initialize''),
                  (''params'', JObj [(''protocolVersion'', JStr ''2024-11-05'')])]
                 (example_server None) (example_world 0 [] (ClientError []))) of
            Returns resp \<Rightarrow> resp | _ \<Rightarrow> JNull) ''result'' =
     Some (JObj [(''protocolVersion'', JStr ''2024-11-05''),
                 (''capabilities'', capabilities (example_server None)),
                 (''serverInfo'', JObj [(''name'', JStr ''trello-mcp''),
                                        (''version'', JStr ''1.0.0'')])])"
proof -
  let ?r1 = "[(''jsonrpc'', JStr ''2.0''), (''id'', JInt 1), (''method'', JStr ''initialize''),
              (''params'', JObj [(''protocolVersion'', JStr ''9999-01-01'')])]"
  let ?r2 = "[(''jsonrpc'', JStr ''2.0''), (''id'', JInt 2), (''method'', JStr ''initialize''),
              (''params'', JObj [(''protocolVersion'', JStr ''2024-11-05'')])]"
  have m1: "dget ?r1 ''method'' = JStr ''initialize''"
    and p1: "dget_default ?r1 ''params'' (JObj []) = JObj [(''protocolVersion'', JStr ''9999-01-01'')]"
    and m2: "dget ?r2 ''method'' = JStr ''initialize''"
    and p2: "dget_default ?r2 ''params'' (JObj []) = JObj [(''protocolVersion'', JStr ''2024-11-05'')]"
    by (simp_all add: dget_def dget_default_def)
  show ?thesis
    using initialize_version_check[OF m1 p1, of example_lib "example_server None"
            "example_world 0 [] (ClientError [])"]
          initialize_version_check[OF m2 p2, of example_lib "example_server None"
            "example_world 0 [] (ClientError [])"]
    by (auto simp: dget_def dget_default_def py_str_def)
qed

lemma execute_tool_no_raise: "fst (execute_tool L n a tt w) \<noteq> Raises e"
  by (simp add: execute_tool_def split: prod.splits outcome.splits)

lemma error_response_shape:
  "field (create_error_response rid code msg) ''id'' = Some rid \<and>
   field (create_error_response rid code msg) ''result'' = None \<and>
   field (create_error_response rid code msg) ''error'' \<noteq> None"
  by (simp add: create_error_response_def field_def)

lemma result_response_shape:
  "field (result_response rid r) ''id'' = Some rid \<and>
   field (result_response rid r) ''result'' \<noteq> None \<and>
   field (result_response rid r) ''error'' = None"
  by (simp add: result_response_def field_def)

lemma well_formed_error: "well_formed rid (create_error_response rid code msg)"
  using error_response_shape[of rid code msg] by (auto simp: well_formed_def)

lemma well_formed_result: "well_formed rid (result_response rid r)"
  using result_response_shape[of rid r] by (auto simp: well_formed_def)

lemma handle_initialize_shape: "well_formed rid (handle_initialize rid params srv)"
  by (simp add: handle_initialize_def well_formed_error well_formed_result Let_def
           split: json.splits)

lemma handle_tool_call_shape:
  assumes "handle_tool_call L rid params srv w = (Returns resp, srv', w')"
  shows "well_formed rid resp"
  using assms
  by (auto simp: handle_tool_call_def well_formed_error well_formed_result Let_def
           split: json.splits option.splits prod.splits outcome.splits if_splits)

lemma handle_tool_call_no_raise: "fst (handle_tool_call L rid params srv w) \<noteq> Raises e"
  by (auto simp: handle_tool_call_def Let_def
           split: json.splits option.splits prod.splits outcome.splits)


text \<open>
  C9.  The protocol handler never lets an exception out, and only a tool call can fail to
  answer (when the dispatcher blocks).  Every response it produces, whatever the method
  and the params, carries the id of the request (\<open>None\<close> when the request has none) and
  exactly one of \<open>result\<close> and \<open>error\<close>.
\<close>

theorem response_envelope:
  "fst (handle_request L request srv w) \<noteq> Raises e \<and>
   (dget request ''method'' \<noteq> JStr ''tools/call'' \<longrightarrow>
      fst (handle_request L request srv w) \<noteq> Blocks) \<and>
   (handle_request L request srv w = (Returns resp, srv', w') \<longrightarrow>
      field resp ''id'' = Some (dget request ''id'') \<and>
      (field resp ''result'' = None) \<noteq> (field resp ''error'' = None))"
proof (intro conjI impI)
  show "fst (handle_request L request srv w) \<noteq> Raises e"
    by (simp add: handle_request_def Let_def handle_tool_call_no_raise)
next
  assume "dget request ''method'' \<noteq> JStr ''tools/call''"
  then show "fst (handle_request L request srv w) \<noteq> Blocks"
    by (simp add: handle_request_def Let_def)
next
  assume r: "handle_request L request srv w = (Returns resp, srv', w')"
  have "well_formed (dget request ''id'') resp"
  proof (cases "dget request ''method'' = JStr ''tools/call''")
    case True
    with r have "handle_tool_call L (dget request ''id'')
                   (dget_default request ''params'' (JObj [])) srv w = (Returns resp, srv', w')"
      by (simp add: handle_request_def Let_def)
    then show ?thesis by (rule handle_tool_call_shape)
  next
    case False
    with r show ?thesis
      by (auto simp: handle_request_def Let_def handle_initialize_shape well_formed_error
                     well_formed_result handle_tools_list_def handle_resources_list_def
                     handle_prompts_list_def split: if_splits)
  qed
  then show "field resp ''id'' = Some (dget request ''id'')"
    and "(field resp ''result'' = None) \<noteq> (field resp ''error'' = None)"
    by (simp_all add: well_formed_def)
qed

theorem response_envelope_witness:
  "dget [(''jsonrpc'', JStr ''2.0''), (''id'', JInt 7), (''method'', JStr ''tools/call''),
         (''params'', JList [])] ''method'' \<noteq> JStr ''initialize'' \<and>
   handle_request example_lib
     [(''jsonrpc'', JStr ''2.0''), (''id'', JInt 7), (''method'', JStr ''tools/call''),
      (''params'', JList [])]
     (example_server None) (example_world 0 [] (ClientError [])) =
     (Returns (JObj [(''jsonrpc'', JStr ''2.0''), (''id'', JInt 7),
                     (''error'', JObj [(''code'', JInt (-32603)),
                        (''message'', JStr (exn_str (no_attribute (JList []) ''get'')))])]),
      example_server None, example_world 0 [] (ClientError [])) \<and>
   field (JObj [(''jsonrpc'', JStr ''2.0''), (''id'', JInt 7),
                (''error'', JObj [(''code'', JInt (-32603)),
                   (''message'', JStr (exn_str (no_attribute (JList []) ''get'')))])]) ''id'' =
     Some (JInt 7) \<and>
   dget [(''jsonrpc'', JStr ''2.0''), (''id'', JStr ''a''), (''method'', JStr ''ping'')] ''method''
     \<noteq> JStr ''tools/call'' \<and>
   fst (handle_request example_lib
     [(''jsonrpc'', JStr ''2.0''), (''id'', JStr ''a''), (''method'', JStr ''ping'')]
     (example_server None) (example_world 0 [] (ClientError []))) \<noteq> Blocks"
proof -
  let ?rq = "[(''jsonrpc'', JStr ''2.0''), (''id'', JInt 7), (''method'', JStr ''tools/call''),
              (''params'', JList [])]"
  let ?rq2 = "[(''jsonrpc'', JStr ''2.0''), (''id'', JStr ''a''), (''method'', JStr ''ping'')]"
  let ?resp = "JObj [(''jsonrpc'', JStr ''2.0''), (''id'', JInt 7),
                     (''error'', JObj [(''code'', JInt (-32603)),
                        (''message'', JStr (exn_str (no_attribute (JList []) ''get'')))])]"
  have h: "handle_request example_lib ?rq (example_server None) (example_world 0 [] (ClientError [])) =
           (Returns ?resp, example_server None, example_world 0 [] (ClientError []))"
    by (simp add: handle_request_def handle_tool_call_def dget_def dget_default_def
                  create_error_response_def Let_def)
  have m: "dget ?rq2 ''method'' \<noteq> JStr ''tools/call''"
    by (simp add: dget_def dget_default_def)
  show ?thesis
    using response_envelope[of example_lib ?rq "example_server None"
            "example_world 0 [] (ClientError [])" EOFError ?resp "example_server None"
            "example_world 0 [] (ClientError [])"]
          response_envelope[of example_lib ?rq2 "example_server None"
            "example_world 0 [] (ClientError [])" EOFError]
          h m
    by (simp add: dget_def dget_default_def)
qed

section \<open>Properties of the dispatcher\<close>

lemma dget_delete: "k \<noteq> k' \<Longrightarrow> dget (AList.delete k args) k' = dget args k'"
  by (simp add: dget_def dget_default_def delete_conv)

text \<open>A call of the adapter issues at most one upstream call, the one it was asked for.\<close>

lemma make_request_sent:
  "sent (snd (snd (make_request m e c p cl w))) = sent w \<or>
   sent (snd (snd (make_request m e c p cl w))) =
     sent w @ [\<lparr>rq_method = m, rq_endpoint = e,
                 rq_params = AList.update ''token'' (JStr (token c))
                               (AList.update ''key'' (JStr (api_key c)) p)\<rparr>]"
  by (simp add: make_request_def Let_def split: prod.splits outcome.splits reply.splits)

lemma update_card_params_due:
  "uc_due r = None \<Longrightarrow> map_of (update_card_params r) ''due'' = None"
  by (simp add: update_card_params_def Let_def update_conv' split: option.splits)

lemma finish_state: "snd (finish L tool label args r) = snd r"
  by (auto simp: finish_def Let_def split: prod.splits outcome.splits sum.splits exn.splits)

lemma with_client_sent:
  "sent (snd (snd (with_client f tt w))) = sent (snd (snd (f (get_client tt) w)))"
  by (simp add: with_client_def split: prod.splits)


text \<open>
  C10.  When the arguments of \<open>update_card\<close> hold \<open>due\<close> with the value \<open>None\<close> or the
  empty string, the handler does exactly what it does for the same arguments without
  \<open>due\<close>: same result, same state, same upstream calls.  It issues at most one upstream
  call, a \<open>PUT\<close> on the card, and the parameters of that call have no \<open>due\<close>.
\<close>

theorem update_card_null_due:
  assumes "map_of args ''due'' = Some v" and "v = JNull \<or> v = JStr []"
  shows "handle_update_card L credentials args tt w =
           handle_update_card L credentials (AList.delete ''due'' args) tt w \<and>
         (sent (snd (snd (handle_update_card L credentials args tt w))) = sent w \<or>
          (\<exists>rq. sent (snd (snd (handle_update_card L credentials args tt w))) = sent w @ [rq] \<and>
                rq_method rq = ''PUT'' \<and>
                rq_endpoint rq = ''cards/'' @ py_str (dget args ''card_id'') \<and>
                map_of (rq_params rq) ''due'' = None))"
proof
  show "handle_update_card L credentials args tt w =
          handle_update_card L credentials (AList.delete ''due'' args) tt w"
    using assms by (auto simp: handle_update_card_def Let_def dget_delete delete_conv)
next
  let ?mk = "make_UpdateCardRequest L (dget args ''name'') (dget args ''desc'')
               (dget args ''closed'') (dget args ''list_id'') (dget args ''pos'') None"
  show "sent (snd (snd (handle_update_card L credentials args tt w))) = sent w \<or>
          (\<exists>rq. sent (snd (snd (handle_update_card L credentials args tt w))) = sent w @ [rq] \<and>
                rq_method rq = ''PUT'' \<and>
                rq_endpoint rq = ''cards/'' @ py_str (dget args ''card_id'') \<and>
                map_of (rq_params rq) ''due'' = None)"
  proof (cases ?mk)
    case (Inl e)
    then show ?thesis using assms
      by (auto simp: handle_update_card_def Let_def finish_state)
  next
    case (Inr r)
    then have due: "uc_due r = None"
      by (auto simp: make_UpdateCardRequest_def Let_def split: sum.splits option.splits)
    have h: "handle_update_card L credentials args tt w =
               finish L ''update_card'' ''update card'' []
                 (with_client (update_card credentials (dget args ''card_id'') r) tt w)"
      using assms Inr by (auto simp: handle_update_card_def Let_def)
    have s: "sent (snd (snd (handle_update_card L credentials args tt w))) =
             sent (snd (snd (make_request ''PUT'' (''cards/'' @ py_str (dget args ''card_id''))
                     credentials (update_card_params r) (get_client tt) w)))"
      by (simp add: h finish_state with_client_sent update_card_def)
    from make_request_sent[of "''PUT''" "''cards/'' @ py_str (dget args ''card_id'')" credentials
            "update_card_params r" "get_client tt" w]
    show ?thesis
    proof
      assume "sent (snd (snd (make_request ''PUT'' (''cards/'' @ py_str (dget args ''card_id''))
                     credentials (update_card_params r) (get_client tt) w))) = sent w"
      with s show ?thesis by simp
    next
      assume a: "sent (snd (snd (make_request ''PUT'' (''cards/'' @ py_str (dget args ''card_id''))
                     credentials (update_card_params r) (get_client tt) w))) =
        sent w @ [\<lparr>rq_method = ''PUT'', rq_endpoint = ''cards/'' @ py_str (dget args ''card_id''),
                 rq_params = AList.update ''token'' (JStr (token credentials))
                               (AList.update ''key'' (JStr (api_key credentials))
                                  (update_card_params r))\<rparr>]"
      have "map_of (AList.update ''token'' (JStr (token credentials))
                               (AList.update ''key'' (JStr (api_key credentials))
                                  (update_card_params r))) ''due'' = None"
        using update_card_params_due[OF due] by (simp add: update_conv')
      with a s show ?thesis by simp
    qed
  qed
qed


lemma strip_N: "py_strip ''N'' = ''N''"
  by (simp add: py_strip_def is_space_def)

theorem update_card_null_due_witness:
  "map_of [(''card_id'', JStr ''c1''), (''name'', JStr ''N''), (''due'', JNull)] ''due'' = Some JNull \<and>
   handle_update_card example_lib \<lparr>api_key = ''k'', token = ''t''\<rparr>
       [(''card_id'', JStr ''c1''), (''name'', JStr ''N''), (''due'', JNull)]
       \<lparr>client = None,
        credential_manager = \<lparr>cache_duration = 28800, cached_credentials = None,
                                credentials_timestamp = None\<rparr>\<rparr>
       (example_world 0 [] (Http 200 ''{}'' (Some (JObj [])))) =
   handle_update_card example_lib \<lparr>api_key = ''k'', token = ''t''\<rparr>
       [(''card_id'', JStr ''c1''), (''name'', JStr ''N'')]
       \<lparr>client = None,
        credential_manager = \<lparr>cache_duration = 28800, cached_credentials = None,
                                credentials_timestamp = None\<rparr>\<rparr>
       (example_world 0 [] (Http 200 ''{}'' (Some (JObj [])))) \<and>
   sent (snd (snd (handle_update_card example_lib \<lparr>api_key = ''k'', token = ''t''\<rparr>
       [(''card_id'', JStr ''c1''), (''name'', JStr ''N''), (''due'', JNull)]
       \<lparr>client = None,
        credential_manager = \<lparr>cache_duration = 28800, cached_credentials = None,
                                credentials_timestamp = None\<rparr>\<rparr>
       (example_world 0 [] (Http 200 ''{}'' (Some (JObj [])))))))  =
     [\<lparr>rq_method = ''PUT'', rq_endpoint = ''cards/c1'',
       rq_params = [(''name'', JStr ''N''), (''key'', JStr ''k''), (''token'', JStr ''t'')]\<rparr>]"
proof -
  let ?args = "[(''card_id'', JStr ''c1''), (''name'', JStr ''N''), (''due'', JNull)]"
  let ?tt = "\<lparr>client = None,
        credential_manager = \<lparr>cache_duration = 28800, cached_credentials = None,
                                credentials_timestamp = None\<rparr>\<rparr>"
  let ?w = "example_world 0 [] (Http 200 ''{}'' (Some (JObj [])))"
  have h1: "map_of ?args ''due'' = Some JNull" by simp
  have h2: "JNull = JNull \<or> JNull = JStr []" by simp
  have ev: "sent (snd (snd (handle_update_card example_lib \<lparr>api_key = ''k'', token = ''t''\<rparr> ?args ?tt ?w))) =
     [\<lparr>rq_method = ''PUT'', rq_endpoint = ''cards/c1'',
       rq_params = [(''name'', JStr ''N''), (''key'', JStr ''k''), (''token'', JStr ''t'')]\<rparr>]"
    by (simp add: handle_update_card_def make_UpdateCardRequest_def validate_name_pre_def
          optional_def example_lib_def strip_N finish_state with_client_sent update_card_def
          update_card_params_def make_request_def acquire_unlocked prune_def TrelloClient_init_def
          RateLimiter_init_def get_client_def example_world_def py_str_def dget_def
          dget_default_def Let_def)
  show ?thesis
    using update_card_null_due[OF h1 h2, of example_lib "\<lparr>api_key = ''k'', token = ''t''\<rparr>" ?tt ?w] ev
    by simp
qed

text \<open>The check of the credentials, once the rate limiter admits it.\<close>

lemma validate_credentials_admitted:
  assumes "acquire (clock w) (rate_limiter cl) = (Returns (), rl)"
  shows "validate_credentials credentials cl w =
     (case upstream w (members_me_request credentials) of
        Http status text body \<Rightarrow>
          if status = 200 then
            (Returns (Valid (case body of Some j \<Rightarrow> j | None \<Rightarrow> JObj [(''result'', JStr text)])),
             cl\<lparr>rate_limiter := rl\<rparr>, checked_world credentials w)
          else
            (Returns (NotValid
               (if status = 401 then ''Unauthorized - check your API key and token''
                else if status = 403 then ''Forbidden - insufficient permissions''
                else if status = 404 then ''Not found - the requested resource does not exist''
                else if status = 429 then ''Rate limit exceeded''
                else ''API request failed with status '' @ str_int status)),
             cl\<lparr>rate_limiter := rl\<rparr>, checked_world credentials w)
      | ClientError m \<Rightarrow>
          (Returns (NotValid (''Network error: '' @ m)), cl\<lparr>rate_limiter := rl\<rparr>,
           checked_world credentials w)
      | Crash e \<Rightarrow>
          (case e of
             TrelloAPIError m st \<Rightarrow>
               (Returns (NotValid m), cl\<lparr>rate_limiter := rl\<rparr>, checked_world credentials w)
           | _ \<Rightarrow> (Raises e, cl\<lparr>rate_limiter := rl\<rparr>, checked_world credentials w)))"
  using assms
  by (simp add: validate_credentials_def make_request_def members_me_request_def
                checked_world_def Let_def split: reply.splits exn.splits)

lemma execute_tool_invalid:
  assumes "resolve_credentials args tt w = (Returns (k, t), tt1, w1)"
    and "make_TrelloCredentials L k t = Inr credentials"
    and "acquire (clock w1) (rate_limiter (get_client tt1)) = (Returns (), rl)"
    and "upstream w1 (members_me_request credentials) = Http 401 text body"
  shows "execute_tool L tool_name (JObj args) tt w =
           (Returns (error_payload (cross @
              '' Invalid credentials: Unauthorized - check your API key and token'')),
            checked_tools rl tt1, checked_world credentials w1)"
  using assms
  by (simp add: execute_tool_def execute_tool_body_def with_client_def checked_tools_def
                validate_credentials_admitted)


lemma get_cached_Some:
  assumes "get_cached_credentials now cm = (Some (k, t), cm')"
  shows "cm' = cm \<and> (\<exists>c. cached_credentials cm = Some c \<and> ce_api_key c = k \<and> ce_token c = t)"
  using assms
  by (auto simp: get_cached_credentials_def is_cached_valid_def
           split: option.splits if_splits bool.splits prod.splits)

text \<open>A pair that the credential manager resolves is the pair its cache then holds.\<close>

lemma resolved_pair_cached:
  assumes "get_or_prompt_credentials k0 t0 cm w = (Returns (k, t), cm', w')"
  shows "\<exists>c. cached_credentials cm' = Some c \<and> ce_api_key c = k \<and> ce_token c = t"
proof (cases "truthy k0 \<and> truthy t0")
  case True
  with assms show ?thesis
    by (auto simp: get_or_prompt_credentials_def cache_credentials_def)
next
  case False
  show ?thesis
  proof (cases "get_cached_credentials (clock w) cm")
    case (Pair r cm1)
    show ?thesis
    proof (cases r)
      case None
      with Pair False assms have "prompt_for_credentials cm1 w = (Returns (k, t), cm', w')"
        by (auto simp: get_or_prompt_credentials_def)
      from prompt_Returns[OF this] show ?thesis by (simp add: cache_credentials_def)
    next
      case (Some p)
      with Pair False assms have "p = (k, t)" and "cm' = cm1"
        by (auto simp: get_or_prompt_credentials_def)
      with Pair Some get_cached_Some[of "clock w" cm k t cm1] show ?thesis by simp
    qed
  qed
qed

lemma resolve_credentials_cases:
  assumes "resolve_credentials args tt w = (Returns (k, t), tt1, w1)"
  shows "(truthy (dget args ''api_key'') \<and> truthy (dget args ''token'') \<longrightarrow>
            tt1 = tt \<and> w1 = w \<and> k = dget args ''api_key'' \<and> t = dget args ''token'') \<and>
         (\<not> (truthy (dget args ''api_key'') \<and> truthy (dget args ''token'')) \<longrightarrow>
            (\<exists>c. cached_credentials (credential_manager tt1) = Some c \<and>
                  ce_api_key c = k \<and> ce_token c = t))"
proof (rule conjI; rule impI)
  assume "truthy (dget args ''api_key'') \<and> truthy (dget args ''token'')"
  with assms show "tt1 = tt \<and> w1 = w \<and> k = dget args ''api_key'' \<and> t = dget args ''token''"
    by (auto simp: resolve_credentials_def Let_def)
next
  assume n: "\<not> (truthy (dget args ''api_key'') \<and> truthy (dget args ''token''))"
  obtain r cm' w' where g: "get_or_prompt_credentials (dget args ''api_key'') (dget args ''token'')
                              (credential_manager tt) w = (r, cm', w')"
    by (cases "get_or_prompt_credentials (dget args ''api_key'') (dget args ''token'')
                 (credential_manager tt) w") auto
  with n assms have "r = Returns (k, t)" and "tt1 = tt\<lparr>credential_manager := cm'\<rparr>"
    by (auto simp: resolve_credentials_def Let_def)
  with g resolved_pair_cached[of "dget args ''api_key''" "dget args ''token''"
                                "credential_manager tt" w k t cm' w']
  show "\<exists>c. cached_credentials (credential_manager tt1) = Some c \<and>
             ce_api_key c = k \<and> ce_token c = t"
    by simp
qed


text \<open>
  C3 (as amended).  A tool call whose credentials resolve, and whose check the rate
  limiter admits and the service answers with 401, is answered by an envelope with a
  \<open>result\<close>: the payload flagged \<open>isError\<close> with the text
  \<open>Invalid credentials: Unauthorized - check your API key and token\<close>.  The credential
  cache is not cleared: the manager stays as the resolution left it, holding the resolved
  pair when the arguments did not carry a full pair.
\<close>

theorem invalid_credentials_payload:
  assumes "dget request ''method'' = JStr ''tools/call''"
    and "dget_default request ''params'' (JObj []) = JObj ps"
    and "truthy (dget ps ''name'')"
    and "dget_default ps ''arguments'' (JObj []) = JObj args"
    and "tools srv = Some tt"
    and "resolve_credentials args tt w = (Returns (k, t), tt1, w1)"
    and "make_TrelloCredentials L k t = Inr credentials"
    and "acquire (clock w1) (rate_limiter (get_client tt1)) = (Returns (), rl)"
    and "upstream w1 (members_me_request credentials) = Http 401 text body"
  shows "handle_request L request srv w =
           (Returns (result_response (dget request ''id'')
                       (error_payload (cross @
                          '' Invalid credentials: Unauthorized - check your API key and token''))),
            srv\<lparr>tools := Some (checked_tools rl tt1)\<rparr>, checked_world credentials w1) \<and>
         credential_manager (checked_tools rl tt1) = credential_manager tt1 \<and>
         (\<not> (truthy (dget args ''api_key'') \<and> truthy (dget args ''token'')) \<longrightarrow>
            (\<exists>c. cached_credentials (credential_manager (checked_tools rl tt1)) = Some c \<and>
                  ce_api_key c = k \<and> ce_token c = t))"
proof (intro conjI)
  have "execute_tool L (dget ps ''name'') (JObj args) tt w =
           (Returns (error_payload (cross @
              '' Invalid credentials: Unauthorized - check your API key and token'')),
            checked_tools rl tt1, checked_world credentials w1)"
    using assms(6-9) by (rule execute_tool_invalid)
  then show "handle_request L request srv w =
           (Returns (result_response (dget request ''id'')
                       (error_payload (cross @
                          '' Invalid credentials: Unauthorized - check your API key and token''))),
            srv\<lparr>tools := Some (checked_tools rl tt1)\<rparr>, checked_world credentials w1)"
    using assms(1-5) by (simp add: handle_request_def handle_tool_call_def Let_def)
next
  show c: "credential_manager (checked_tools rl tt1) = credential_manager tt1"
    by (simp add: checked_tools_def)
  show "\<not> (truthy (dget args ''api_key'') \<and> truthy (dget args ''token'')) \<longrightarrow>
            (\<exists>c. cached_credentials (credential_manager (checked_tools rl tt1)) = Some c \<and>
                  ce_api_key c = k \<and> ce_token c = t)"
    using resolve_credentials_cases[OF assms(6)] c by simp
qed


text \<open>The example dispatcher at time 100: the cached pair resolves, and the check is admitted.\<close>

lemma example_resolve:
  assumes "dget args ''api_key'' = JNull"
  shows "resolve_credentials args example_tools (example_world 100 ls a) =
           (Returns (JStr ''k0'', JStr ''t0''), example_tools, example_world 100 ls a)"
  using assms
  by (simp add: resolve_credentials_def get_or_prompt_credentials_def get_cached_credentials_def
                is_cached_valid_def example_tools_def example_cache_def example_world_def Let_def)

lemma example_make_credentials:
  "make_TrelloCredentials example_lib (JStr ''k0'') (JStr ''t0'') = Inr example_credentials"
  by (simp add: make_TrelloCredentials_def required_def validate_not_empty_def example_lib_def
                example_credentials_def py_strip_def is_space_def Let_def)

lemma example_acquire:
  "acquire (clock (example_world 100 ls a)) (rate_limiter (get_client example_tools)) =
     (Returns (), \<lparr>max_requests = 300, time_window = 10, requests = [100], lock_held = False\<rparr>)"
  by (simp add: acquire_unlocked prune_def get_client_def example_tools_def TrelloClient_init_def
                RateLimiter_init_def example_world_def)

theorem invalid_credentials_payload_witness:
  "handle_request example_lib
     [(''jsonrpc'', JStr ''2.0''), (''id'', JInt 3), (''method'', JStr ''tools/call''),
      (''params'', JObj [(''name'', JStr ''list_boards''), (''arguments'', JObj [])])]
     (example_server (Some example_tools)) (example_world 100 [] (Http 401 ''invalid key'' None)) =
   (Returns (result_response (JInt 3)
               (error_payload (cross @
                  '' Invalid credentials: Unauthorized - check your API key and token''))),
    (example_server (Some example_tools))
      \<lparr>tools := Some (checked_tools
          \<lparr>max_requests = 300, time_window = 10, requests = [100], lock_held = False\<rparr>
          example_tools)\<rparr>,
    checked_world example_credentials (example_world 100 [] (Http 401 ''invalid key'' None))) \<and>
   (\<exists>c. cached_credentials (credential_manager (checked_tools
          \<lparr>max_requests = 300, time_window = 10, requests = [100], lock_held = False\<rparr>
          example_tools)) = Some c \<and> ce_api_key c = JStr ''k0'' \<and> ce_token c = JStr ''t0'')"
proof -
  let ?rq = "[(''jsonrpc'', JStr ''2.0''), (''id'', JInt 3), (''method'', JStr ''tools/call''),
      (''params'', JObj [(''name'', JStr ''list_boards''), (''arguments'', JObj [])])]"
  let ?ps = "[(''name'', JStr ''list_boards''), (''arguments'', JObj [])]"
  let ?w = "example_world 100 [] (Http 401 ''invalid key'' None)"
  have h1: "dget ?rq ''method'' = JStr ''tools/call''"
    and h2: "dget_default ?rq ''params'' (JObj []) = JObj ?ps"
    and h3: "truthy (dget ?ps ''name'')"
    and h4: "dget_default ?ps ''arguments'' (JObj []) = JObj []"
    and h5: "tools (example_server (Some example_tools)) = Some example_tools"
    by (simp_all add: dget_def dget_default_def example_server_def)
  have h6: "resolve_credentials [] example_tools ?w =
              (Returns (JStr ''k0'', JStr ''t0''), example_tools, ?w)"
    by (rule example_resolve) (simp add: dget_def dget_default_def)
  have h9: "upstream ?w (members_me_request example_credentials) = Http 401 ''invalid key'' None"
    by (simp add: example_world_def)
  show ?thesis
    using invalid_credentials_payload[OF h1 h2 h3 h4 h5 h6 example_make_credentials
            example_acquire h9]
    by (auto simp: dget_def dget_default_def)
qed

text \<open>
  C3 as stated fails: after the 401 the cache of the example dispatcher still holds the
  pair and its time stamp.
\<close>

theorem invalid_credentials_counterexample:
  "upstream (example_world 100 [] (Http 401 ''invalid key'' None))
       (members_me_request example_credentials) = Http 401 ''invalid key'' None \<and>
   fst (execute_tool example_lib (JStr ''list_boards'') (JObj []) example_tools
          (example_world 100 [] (Http 401 ''invalid key'' None))) =
     Returns (error_payload (cross @
                '' Invalid credentials: Unauthorized - check your API key and token'')) \<and>
   cached_credentials (credential_manager (fst (snd
       (execute_tool example_lib (JStr ''list_boards'') (JObj []) example_tools
          (example_world 100 [] (Http 401 ''invalid key'' None)))))) =
     Some \<lparr>ce_api_key = JStr ''k0'', ce_token = JStr ''t0'',
           ce_username = JNull, ce_password = JNull\<rparr> \<and>
   credentials_timestamp (credential_manager (fst (snd
       (execute_tool example_lib (JStr ''list_boards'') (JObj []) example_tools
          (example_world 100 [] (Http 401 ''invalid key'' None)))))) = Some 0"
proof -
  let ?w = "example_world 100 [] (Http 401 ''invalid key'' None)"
  have h6: "resolve_credentials [] example_tools ?w =
              (Returns (JStr ''k0'', JStr ''t0''), example_tools, ?w)"
    by (rule example_resolve) (simp add: dget_def dget_default_def)
  have h9: "upstream ?w (members_me_request example_credentials) = Http 401 ''invalid key'' None"
    by (simp add: example_world_def)
  show ?thesis
    using execute_tool_invalid[OF h6 example_make_credentials example_acquire h9,
            of "JStr ''list_boards''"] h9
    by (simp add: checked_tools_def example_tools_def example_cache_def)
qed

lemma tool_names_eq:
  "tool_names = [''list_boards'', ''get_board'', ''create_board'', ''update_board'', ''get_lists'',
                 ''create_list'', ''get_cards'', ''create_card'', ''update_card'',
                 ''add_member_to_card'', ''search_cards'']"
  by (simp add: tool_names_def get_tools_def)

lemma dispatch_unknown:
  assumes "tool_name \<notin> JStr ` set tool_names"
  shows "dispatch L tool_name credentials args tt w =
           (Returns (error_payload (cross @ '' Unknown tool: '' @ py_str tool_name)), tt, w)"
  using assms by (auto simp: dispatch_def tool_names_eq)

text \<open>A dispatch whose credentials resolve and pass the check runs the tool.\<close>

lemma execute_tool_valid:
  assumes "resolve_credentials args tt w = (Returns (k, t), tt1, w1)"
    and "make_TrelloCredentials L k t = Inr credentials"
    and "acquire (clock w1) (rate_limiter (get_client tt1)) = (Returns (), rl)"
    and "upstream w1 (members_me_request credentials) = Http 200 text body"
  shows "execute_tool_body L tool_name (JObj args) tt w =
           dispatch L tool_name credentials args (checked_tools rl tt1)
             (checked_world credentials w1)"
  using assms
  by (simp add: execute_tool_body_def with_client_def checked_tools_def
                validate_credentials_admitted)


text \<open>
  C4 (as amended).  The name of the tool is looked at last.  A call of a tool that is not
  in the catalog, whose credentials resolve and pass the check, is answered with the
  payload \<open>Unknown tool: <name>\<close> flagged \<open>isError\<close>, after the credentials were resolved
  (and cached, when the arguments did not carry a full pair), one admission was recorded
  by the rate limiter and one upstream call, the check, was issued.  No handler runs.
\<close>

theorem unknown_tool_after_check:
  assumes "tool_name \<notin> JStr ` set tool_names"
    and "resolve_credentials args tt w = (Returns (k, t), tt1, w1)"
    and "make_TrelloCredentials L k t = Inr credentials"
    and "acquire (clock w1) (rate_limiter (get_client tt1)) = (Returns (), rl)"
    and "upstream w1 (members_me_request credentials) = Http 200 text body"
  shows "execute_tool L tool_name (JObj args) tt w =
           (Returns (error_payload (cross @ '' Unknown tool: '' @ py_str tool_name)),
            checked_tools rl tt1, checked_world credentials w1) \<and>
         sent (checked_world credentials w1) = sent w1 @ [members_me_request credentials] \<and>
         requests rl = prune (clock w1) (rate_limiter (get_client tt1)) @ [clock w1] \<and>
         (\<not> (truthy (dget args ''api_key'') \<and> truthy (dget args ''token'')) \<longrightarrow>
            (\<exists>c. cached_credentials (credential_manager (checked_tools rl tt1)) = Some c \<and>
                  ce_api_key c = k \<and> ce_token c = t))"
proof (intro conjI)
  show "execute_tool L tool_name (JObj args) tt w =
           (Returns (error_payload (cross @ '' Unknown tool: '' @ py_str tool_name)),
            checked_tools rl tt1, checked_world credentials w1)"
    using execute_tool_valid[OF assms(2-5), of tool_name] dispatch_unknown[OF assms(1)]
    by (simp add: execute_tool_def)
next
  show "sent (checked_world credentials w1) = sent w1 @ [members_me_request credentials]"
    by (simp add: checked_world_def)
next
  show "requests rl = prune (clock w1) (rate_limiter (get_client tt1)) @ [clock w1]"
    using acquire_Returns[OF assms(4)] by simp
next
  have "credential_manager (checked_tools rl tt1) = credential_manager tt1"
    by (simp add: checked_tools_def)
  then show "\<not> (truthy (dget args ''api_key'') \<and> truthy (dget args ''token'')) \<longrightarrow>
            (\<exists>c. cached_credentials (credential_manager (checked_tools rl tt1)) = Some c \<and>
                  ce_api_key c = k \<and> ce_token c = t)"
    using resolve_credentials_cases[OF assms(2)] by simp
qed

lemma no_such_tool: "JStr ''no_such_tool'' \<notin> JStr ` set tool_names"
  by (simp add: tool_names_eq)

theorem unknown_tool_after_check_witness:
  "JStr ''no_such_tool'' \<notin> JStr ` set tool_names \<and>
   execute_tool example_lib (JStr ''no_such_tool'') (JObj []) example_tools
       (example_world 100 [] (Http 200 ''{}'' (Some (JObj [])))) =
     (Returns (error_payload (cross @ '' Unknown tool: no_such_tool'')),
      checked_tools \<lparr>max_requests = 300, time_window = 10, requests = [100], lock_held = False\<rparr>
        example_tools,
      checked_world example_credentials (example_world 100 [] (Http 200 ''{}'' (Some (JObj []))))) \<and>
   sent (checked_world example_credentials (example_world 100 [] (Http 200 ''{}'' (Some (JObj []))))) =
     [members_me_request example_credentials]"
proof -
  let ?w = "example_world 100 [] (Http 200 ''{}'' (Some (JObj [])))"
  have h2: "resolve_credentials [] example_tools ?w =
              (Returns (JStr ''k0'', JStr ''t0''), example_tools, ?w)"
    by (rule example_resolve) (simp add: dget_def dget_default_def)
  have h5: "upstream ?w (members_me_request example_credentials) = Http 200 ''{}'' (Some (JObj []))"
    by (simp add: example_world_def)
  show ?thesis
    using unknown_tool_after_check[OF no_such_tool h2 example_make_credentials example_acquire h5]
          no_such_tool
    by (simp add: py_str_def example_world_def)
qed


lemma strip_tok': "py_strip ''fedcba9876543210fedcba9876543210'' = ''fedcba9876543210fedcba9876543210''"
  by (simp add: py_strip_def is_space_def)

text \<open>
  C4 as stated fails: a dispatcher with an empty cache and no client is asked for a tool
  that does not exist.  The answer is \<open>Unknown tool\<close>, but by then the user was asked
  for credentials, the pair is cached, the rate limiter has recorded an admission and
  the check has gone upstream.
\<close>

theorem unknown_tool_counterexample:
  "JStr ''no_such_tool'' \<notin> JStr ` set tool_names \<and>
   fst (execute_tool example_lib (JStr ''no_such_tool'') (JObj []) example_fresh_tools
          (example_world 100 [(1, ''0123456789abcdef0123456789abcdef''),
                              (2, '' fedcba9876543210fedcba9876543210'')]
             (Http 200 ''{}'' (Some (JObj []))))) =
     Returns (error_payload (cross @ '' Unknown tool: no_such_tool'')) \<and>
   fst (snd (execute_tool example_lib (JStr ''no_such_tool'') (JObj []) example_fresh_tools
          (example_world 100 [(1, ''0123456789abcdef0123456789abcdef''),
                              (2, '' fedcba9876543210fedcba9876543210'')]
             (Http 200 ''{}'' (Some (JObj [])))))) =
     \<lparr>client = Some \<lparr>rate_limiter = \<lparr>max_requests = 300, time_window = 10,
                                          requests = [103], lock_held = False\<rparr>\<rparr>,
      credential_manager =
        \<lparr>cache_duration = 28800,
         cached_credentials =
           Some \<lparr>ce_api_key = JStr ''0123456789abcdef0123456789abcdef'',
                 ce_token = JStr ''fedcba9876543210fedcba9876543210'',
                 ce_username = JNull, ce_password = JNull\<rparr>,
         credentials_timestamp = Some 103\<rparr>\<rparr> \<and>
   sent (snd (snd (execute_tool example_lib (JStr ''no_such_tool'') (JObj []) example_fresh_tools
          (example_world 100 [(1, ''0123456789abcdef0123456789abcdef''),
                              (2, '' fedcba9876543210fedcba9876543210'')]
             (Http 200 ''{}'' (Some (JObj []))))))) =
     [members_me_request \<lparr>api_key = ''0123456789abcdef0123456789abcdef'',
                          token = ''fedcba9876543210fedcba9876543210''\<rparr>]"
proof -
  let ?w = "example_world 100 [(1, ''0123456789abcdef0123456789abcdef''),
                              (2, '' fedcba9876543210fedcba9876543210'')]
             (Http 200 ''{}'' (Some (JObj [])))"
  let ?k = "''0123456789abcdef0123456789abcdef''"
  let ?t = "''fedcba9876543210fedcba9876543210''"
  let ?tt1 = "\<lparr>client = None,
           credential_manager = \<lparr>cache_duration = 28800,
             cached_credentials = Some \<lparr>ce_api_key = JStr ?k, ce_token = JStr ?t,
                                        ce_username = JNull, ce_password = JNull\<rparr>,
             credentials_timestamp = Some 103\<rparr>\<rparr>"
  let ?w1 = "\<lparr>clock = 103, stdin = [], stdin_closed = True,
              upstream = (\<lambda>r. Http 200 ''{}'' (Some (JObj []))), sent = []\<rparr>"
  let ?rl = "\<lparr>max_requests = 300, time_window = 10, requests = [103], lock_held = False\<rparr>"
  have h2: "resolve_credentials [] example_fresh_tools ?w = (Returns (JStr ?k, JStr ?t), ?tt1, ?w1)"
    by (simp add: resolve_credentials_def get_or_prompt_credentials_def
          get_cached_credentials_def is_cached_valid_def prompt_for_credentials_def
          cache_credentials_def example_world_def example_fresh_tools_def strip_key strip_tok
          dget_def dget_default_def Let_def)
  have h3: "make_TrelloCredentials example_lib (JStr ?k) (JStr ?t) = Inr \<lparr>api_key = ?k, token = ?t\<rparr>"
    by (simp add: make_TrelloCredentials_def required_def validate_not_empty_def example_lib_def
                  strip_key strip_tok' Let_def)
  have h4: "acquire (clock ?w1) (rate_limiter (get_client ?tt1)) = (Returns (), ?rl)"
    by (simp add: acquire_unlocked prune_def get_client_def TrelloClient_init_def
                  RateLimiter_init_def)
  have h5: "upstream ?w1 (members_me_request \<lparr>api_key = ?k, token = ?t\<rparr>) =
              Http 200 ''{}'' (Some (JObj []))"
    by simp
  have "execute_tool example_lib (JStr ''no_such_tool'') (JObj []) example_fresh_tools ?w =
          (Returns (error_payload (cross @ '' Unknown tool: no_such_tool'')),
           checked_tools ?rl ?tt1, checked_world \<lparr>api_key = ?k, token = ?t\<rparr> ?w1)"
    using execute_tool_valid[OF h2 h3 h4 h5, of "JStr ''no_such_tool''"]
          dispatch_unknown[OF no_such_tool]
    by (simp add: execute_tool_def py_str_def)
  then show ?thesis
    using no_such_tool
    by (simp add: checked_tools_def checked_world_def get_client_def TrelloClient_init_def
                  RateLimiter_init_def)
qed

end
